theory Spec2Isabelle
  imports Complex_Main "HOL-Library.Word" "HOL-Library.Signed_Division"
begin

unbundle bit_operations_syntax

section \<open>The GunCon2 light-gun device of \<^verbatim>\<open>pcsx2/USB/usb-lightgun/guncon2.cpp\<close>\<close>

text \<open>
  Conventions of the embedding.
  \<^item> \<^verbatim>\<open>u16\<close>, \<^verbatim>\<open>s16\<close>, \<^verbatim>\<open>u32\<close>, \<^verbatim>\<open>s32\<close> are words of that width; a signed
    field is read with \<open>sint\<close>, an unsigned one with \<open>unat\<close>/\<open>uint\<close>.
  \<^item> A \<^verbatim>\<open>float\<close> is a \<open>real\<close> that holds a binary32 value, a \<^verbatim>\<open>double\<close> one that holds
    a binary64 value. Every arithmetic operation and every conversion of the source is
    followed by the rounding of its format (to nearest, ties to even, with gradual
    underflow), as IEEE 754 arithmetic evaluated in the format of the operands does.
    Infinities and NaN are not represented: a result of magnitude \<open>2^128\<close> or more, and
    a NaN input, are outside the model.
  \<^item> The integer steps (unsigned halving, \<^verbatim>\<open>std::round\<close>, the conversion to \<^verbatim>\<open>s32\<close>,
    C++ division truncating towards zero, \<^verbatim>\<open>std::max\<close>, the narrowing to \<^verbatim>\<open>s16\<close>) are
    modelled as the code performs them.
  \<^item> The pointer sample is the pair \<^verbatim>\<open>(pointer_x, pointer_y)\<close> that the external
    \<^verbatim>\<open>GSTranslateWindowToDisplayCoordinates\<close> delivers (normalised, negative when the
    pointer is outside the display); it is an input of the model. The fields that
    only feed that call or the on-screen cursor (\<^verbatim>\<open>udev_internalGunX/Y\<close>,
    \<^verbatim>\<open>cursor_path\<close>, \<^verbatim>\<open>cursor_scale\<close>, \<^verbatim>\<open>cursor_color\<close>) are not part of the state
    record.
\<close>

type_synonym u8 = "8 word"
type_synonym u16 = "16 word"
type_synonym s16 = "16 word"
type_synonym u32 = "32 word"
type_synonym s32 = "32 word"

subsection \<open>Floating-point arithmetic\<close>

text \<open>The binary exponent of a nonzero real: \<open>exponent x = e\<close> with
  \<open>2^e \<le> \<bar>x\<bar> < 2^(e+1)\<close>, found by halving or doubling.\<close>

function expo_up :: "real \<Rightarrow> int" where
  "expo_up x = (if 2 \<le> x then 1 + expo_up (x / 2) else 0)"
  by pat_completeness auto
termination
proof (relation "measure (\<lambda>x. nat \<lfloor>x\<rfloor>)")
  show "wf (measure (\<lambda>x. nat \<lfloor>x\<rfloor>))" by simp
next
  fix x :: real assume x: "2 \<le> x"
  have "x / 2 \<le> x - 1" using x by simp
  then have "\<lfloor>x / 2\<rfloor> \<le> \<lfloor>x - 1\<rfloor>" by (rule floor_mono)
  then have "\<lfloor>x / 2\<rfloor> < \<lfloor>x\<rfloor>" by simp
  moreover have "0 < \<lfloor>x\<rfloor>" using x by simp
  ultimately show "(x / 2, x) \<in> measure (\<lambda>x. nat \<lfloor>x\<rfloor>)" by simp
qed

function expo_down :: "real \<Rightarrow> int" where
  "expo_down x = (if 0 < x \<and> x < 1 then expo_down (2 * x) - 1 else 0)"
  by pat_completeness auto
termination
proof (relation "measure (\<lambda>x. nat \<lceil>1 / x\<rceil>)")
  show "wf (measure (\<lambda>x. nat \<lceil>1 / x\<rceil>))" by simp
next
  fix x :: real assume x: "0 < x \<and> x < 1"
  then have y: "1 < 1 / x" by simp
  then have c: "2 \<le> \<lceil>1 / x\<rceil>" by linarith
  have "1 / (2 * x) = (1 / x) / 2" by simp
  also have "\<dots> \<le> real_of_int \<lceil>1 / x\<rceil> / 2" by (simp add: divide_right_mono)
  also have "\<dots> \<le> real_of_int (\<lceil>1 / x\<rceil> - 1)" using c by simp
  finally have "\<lceil>1 / (2 * x)\<rceil> \<le> \<lceil>1 / x\<rceil> - 1" by (rule ceiling_le)
  then have "nat \<lceil>1 / (2 * x)\<rceil> < nat \<lceil>1 / x\<rceil>" using c by linarith
  then show "(2 * x, x) \<in> measure (\<lambda>x. nat \<lceil>1 / x\<rceil>)" by (simp only: in_measure)
qed

declare expo_up.simps [simp del] expo_down.simps [simp del]

definition exponent :: "real \<Rightarrow> int" where
  "exponent x = (if 1 \<le> \<bar>x\<bar> then expo_up \<bar>x\<bar> else expo_down \<bar>x\<bar>)"

text \<open>Rounding to the nearest integer, ties to the even one.\<close>

definition round_even :: "real \<Rightarrow> int" where
  "round_even x =
     (let f = \<lfloor>x\<rfloor>; d = x - of_int f
      in if d < 1 / 2 then f else if 1 / 2 < d then f + 1 else if even f then f else f + 1)"

text \<open>Rounding to a binary format with \<open>p\<close> bits of significand whose least subnormal
  is \<open>2^emin\<close>: the value is rounded to a multiple of the spacing \<open>2^q\<close> of its binade,
  where \<open>q\<close> is not below \<open>emin\<close>; \<open>pow2 q\<close> is \<open>2^q\<close> for an integer \<open>q\<close>.\<close>

definition pow2 :: "int \<Rightarrow> real" where
  "pow2 q = (if 0 \<le> q then 2 ^ nat q else 1 / 2 ^ nat (- q))"

definition rnd :: "nat \<Rightarrow> int \<Rightarrow> real \<Rightarrow> real" where
  "rnd p emin x =
     (let q = max (exponent x - int p + 1) emin
      in of_int (round_even (x / pow2 q)) * pow2 q)"

definition f32 :: "real \<Rightarrow> real" where
  "f32 = rnd 24 (- 149)"

definition f64 :: "real \<Rightarrow> real" where
  "f64 = rnd 53 (- 1074)"

text \<open>The operations on \<^verbatim>\<open>float\<close>, and those on \<^verbatim>\<open>double\<close> that the source uses.\<close>

definition fadd :: "real \<Rightarrow> real \<Rightarrow> real" where "fadd a b = f32 (a + b)"
definition fsub :: "real \<Rightarrow> real \<Rightarrow> real" where "fsub a b = f32 (a - b)"
definition fmul :: "real \<Rightarrow> real \<Rightarrow> real" where "fmul a b = f32 (a * b)"
definition fdiv :: "real \<Rightarrow> real \<Rightarrow> real" where "fdiv a b = f32 (a / b)"
definition dadd :: "real \<Rightarrow> real \<Rightarrow> real" where "dadd a b = f64 (a + b)"
definition dmul :: "real \<Rightarrow> real \<Rightarrow> real" where "dmul a b = f64 (a * b)"

subsection \<open>Constants\<close>

definition GUNCON2_FLAG_PROGRESSIVE :: u32 where
  "GUNCON2_FLAG_PROGRESSIVE = 0x0100"

definition GUNCON2_CALIBRATION_DELAY :: u32 where
  "GUNCON2_CALIBRATION_DELAY = 12"

definition GUNCON2_CALIBRATION_REPORT_DELAY :: u32 where
  "GUNCON2_CALIBRATION_REPORT_DELAY = 5"

definition BID_C :: nat where "BID_C = 1"
definition BID_B :: nat where "BID_B = 2"
definition BID_A :: nat where "BID_A = 3"
definition BID_DPAD_UP :: nat where "BID_DPAD_UP = 4"
definition BID_DPAD_RIGHT :: nat where "BID_DPAD_RIGHT = 5"
definition BID_DPAD_DOWN :: nat where "BID_DPAD_DOWN = 6"
definition BID_DPAD_LEFT :: nat where "BID_DPAD_LEFT = 7"
definition BID_TRIGGER :: nat where "BID_TRIGGER = 13"
definition BID_SELECT :: nat where "BID_SELECT = 14"
definition BID_START :: nat where "BID_START = 15"
definition BID_SHOOT_OFFSCREEN :: nat where "BID_SHOOT_OFFSCREEN = 16"
definition BID_RECALIBRATE :: nat where "BID_RECALIBRATE = 17"
definition BID_RELATIVE_LEFT :: nat where "BID_RELATIVE_LEFT = 18"
definition BID_RELATIVE_RIGHT :: nat where "BID_RELATIVE_RIGHT = 19"
definition BID_RELATIVE_UP :: nat where "BID_RELATIVE_UP = 20"
definition BID_RELATIVE_DOWN :: nat where "BID_RELATIVE_DOWN = 21"

subsection \<open>The per-title table\<close>

text \<open>\<^verbatim>\<open>struct GameConfig\<close>; the fields carry the prefix \<open>gc_\<close> because the device state
  has fields of the same names. The scales of the table are \<^verbatim>\<open>float\<close> literals: \<open>mk_gc\<close>
  takes the decimal of the source and stores the binary32 value nearest to it.\<close>

record GameConfig =
  gc_serial :: string
  gc_scale_x :: real
  gc_scale_y :: real
  gc_center_x :: u32
  gc_center_y :: u32
  gc_screen_width :: u32
  gc_screen_height :: u32

definition mk_gc :: "string \<Rightarrow> real \<Rightarrow> real \<Rightarrow> u32 \<Rightarrow> u32 \<Rightarrow> u32 \<Rightarrow> u32 \<Rightarrow> GameConfig" where
  "mk_gc n sx sy cx cy w h =
     \<lparr>gc_serial = n, gc_scale_x = f32 sx, gc_scale_y = f32 sy, gc_center_x = cx, gc_center_y = cy,
      gc_screen_width = w, gc_screen_height = h\<rparr>"

definition s_game_config :: "GameConfig list" where
  "s_game_config =
    [mk_gc ''SLES-50930'' 90.25 94.5 390 132 640 256,
     mk_gc ''SLES-51095'' 90.25 94.5 390 132 640 256,
     mk_gc ''SLES-51096'' 90.25 94.5 390 132 640 256,
     mk_gc ''SLUS-20485'' 90.25 92.5 390 132 640 240,
     mk_gc ''SLUS-20389'' 89.25 93.5 422 141 640 240,
     mk_gc ''SLES-50936'' 112.0 100.0 320 120 512 256,
     mk_gc ''SLPM-65139'' 90.0 91.5 320 120 640 240,
     mk_gc ''SLES-52620'' 89.5 112.3 390 147 640 256,
     mk_gc ''SLES-51289'' 84.5 89.0 456 164 640 256,
     mk_gc ''SLPS-25165'' 90.25 98.0 390 138 640 240,
     mk_gc ''SCES-50889'' 90.25 94.5 390 169 640 256,
     mk_gc ''SLPS-20218'' 90.0 92.0 320 134 640 240,
     mk_gc ''SLUS-20492'' 90.25 92.5 390 132 640 240,
     mk_gc ''SLES-50650'' 90.25 107.0 425 135 640 240,
     mk_gc ''SLES-51448'' 90.25 95.0 420 132 640 240,
     mk_gc ''SLUS-20669'' 90.25 93.5 420 132 640 240,
     mk_gc ''SLES-51617'' 90.25 82.0 200 154 640 256,
     mk_gc ''SLUS-20619'' 90.25 91.75 453 154 640 256,
     mk_gc ''SCES-50300'' 90.25 102.75 390 138 640 256,
     mk_gc ''SLUS-20219'' 90.25 97.5 390 154 640 240,
     mk_gc ''SCES-51844'' 90.25 102.75 390 138 640 256,
     mk_gc ''SLUS-20645'' 90.25 97.5 390 154 640 240,
     mk_gc ''SCES-52530'' 90.25 99.0 390 153 640 256,
     mk_gc ''SLUS-20927'' 90.25 99.0 390 153 640 240,
     mk_gc ''SCES-50411'' 89.8 99.9 421 138 640 256,
     mk_gc ''SLPS-25077'' 90.0 97.5 422 118 640 240,
     mk_gc ''SLUS-20221'' 89.8 102.5 452 137 640 228,
     mk_gc ''SLES-51229'' 110.15 100.0 433 159 512 256]"

definition DEFAULT_SCREEN_WIDTH :: int where "DEFAULT_SCREEN_WIDTH = 640"
definition DEFAULT_SCREEN_HEIGHT :: int where "DEFAULT_SCREEN_HEIGHT = 240"
definition DEFAULT_CENTER_X :: real where "DEFAULT_CENTER_X = 320"
definition DEFAULT_CENTER_Y :: real where "DEFAULT_CENTER_Y = 120"
definition DEFAULT_SCALE_X :: real where "DEFAULT_SCALE_X = 100"
definition DEFAULT_SCALE_Y :: real where "DEFAULT_SCALE_Y = 100"

subsection \<open>The report and the device state\<close>

text \<open>\<^verbatim>\<open>union GunCon2Out\<close>: the packed 6-byte report.\<close>

record GunCon2Out =
  buttons :: u16
  pos_x :: s16
  pos_y :: s16

text \<open>The \<^verbatim>\<open>bits\<close> view of the union: little-endian bytes of the three fields.\<close>

definition bits :: "GunCon2Out \<Rightarrow> u8 list" where
  "bits out =
     [ucast (buttons out), ucast (drop_bit 8 (buttons out)),
      ucast (pos_x out), ucast (drop_bit 8 (pos_x out)),
      ucast (pos_y out), ucast (drop_bit 8 (pos_y out))]"

text \<open>\<^verbatim>\<open>struct GunCon2State\<close>, with the member initialisers of the source as
  \<open>GunCon2State_init\<close>.\<close>

record GunCon2State =
  port :: u32
  has_relative_binds :: bool
  custom_config :: bool
  split_screen_hack :: bool
  split_screen_full_stretch :: bool
  screen_width :: u32
  screen_height :: u32
  center_x :: real
  center_y :: real
  scale_x :: real
  scale_y :: real
  calibrated :: bool
  button_state :: u32
  relative_pos :: "real list"
  param_x :: s16
  param_y :: s16
  param_mode :: u16
  calibration_timer :: u16
  calibration_pos_x :: s16
  calibration_pos_y :: s16
  auto_config_done :: bool
  active_game :: string
  splitscreen_activated :: bool
  udev_fd :: int

definition GunCon2State_init :: "u32 \<Rightarrow> GunCon2State" where
  "GunCon2State_init p =
     \<lparr>port = p, has_relative_binds = False, custom_config = False,
      split_screen_hack = False, split_screen_full_stretch = False,
      screen_width = 640, screen_height = 240, center_x = 320, center_y = 120,
      scale_x = 1, scale_y = 1, calibrated = False, button_state = 0,
      relative_pos = [0, 0, 0, 0], param_x = 0, param_y = 0, param_mode = 0,
      calibration_timer = 0, calibration_pos_x = 0, calibration_pos_y = 0,
      auto_config_done = False, active_game = [], splitscreen_activated = False,
      udev_fd = -1\<rparr>"

definition udev_has :: "GunCon2State \<Rightarrow> bool" where
  "udev_has us = (udev_fd us \<noteq> -1)"

subsection \<open>The coordinate mapper\<close>

text \<open>\<^verbatim>\<open>std::round\<close>: to the nearest integer, halfway cases away from zero.\<close>

definition std_round :: "real \<Rightarrow> int" where
  "std_round v = (if 0 \<le> v then \<lfloor>v + 1 / 2\<rfloor> else - \<lfloor>- v + 1 / 2\<rfloor>)"

text \<open>\<^verbatim>\<open>static_cast<s32>\<close> of a rounded float. The conversion is exact when the value
  fits 32 bits; outside that range C++ leaves it undefined, and the model reduces it
  modulo \<open>2^32\<close>.\<close>

definition to_s32 :: "int \<Rightarrow> s32" where
  "to_s32 k = word_of_int k"

text \<open>The split-screen aim adjustment of one port: both axes are mapped linearly into
  \<open>[min, max]\<close>, and the vertical axis gets a parabolic correction computed from the
  unadjusted sample \<^verbatim>\<open>pointer_y2\<close>. The arguments are the decimals of the source.
  \<^verbatim>\<open>float min = 0.035\<close> converts a \<^verbatim>\<open>double\<close> literal to \<^verbatim>\<open>float\<close>; the linear maps and
  \<^verbatim>\<open>pointer_y2 * pointer_y2\<close> are \<^verbatim>\<open>float\<close> operations; the correction is computed in
  \<^verbatim>\<open>double\<close> (its literals are \<^verbatim>\<open>double\<close>), added to \<^verbatim>\<open>pointer_y\<close> in \<^verbatim>\<open>double\<close> and
  stored as \<^verbatim>\<open>float\<close>.\<close>

definition split_adjust ::
  "real \<Rightarrow> real \<Rightarrow> real \<Rightarrow> real \<Rightarrow> real \<Rightarrow> real \<times> real \<Rightarrow> real \<times> real" where
  "split_adjust min_x max_x min_y max_y k p =
     (let pointer_x2 = fst p; pointer_y2 = snd p;
          pointer_x = fadd (fmul pointer_x2 (fsub (f32 (f64 max_x)) (f32 (f64 min_x))))
                           (f32 (f64 min_x));
          pointer_y = fadd (fmul pointer_y2 (fsub (f32 (f64 max_y)) (f32 (f64 min_y))))
                           (f32 (f64 min_y))
      in (pointer_x,
          if pointer_y > 0 \<and> pointer_y < 1
          then f32 (dadd pointer_y
                 (dmul (dadd (dmul (- f64 0.04) (fmul pointer_y2 pointer_y2))
                             (dmul (f64 0.04) pointer_y2))
                       (f64 k)))
          else pointer_y))"

text \<open>Lines 623 to 758 of \<^verbatim>\<open>CalculatePosition\<close>: the adjustment applies for four titles
  while \<^verbatim>\<open>splitscreen_activated\<close> is set, with constants per title and port.\<close>

definition splitscreen_adjust :: "GunCon2State \<Rightarrow> real \<times> real \<Rightarrow> real \<times> real" where
  "splitscreen_adjust us p =
     (if (active_game us = ''SLUS-20219'' \<or> active_game us = ''SCES-50300''
          \<or> active_game us = ''SCES-51844'' \<or> active_game us = ''SLUS-20645'')
         \<and> splitscreen_activated us
      then
        if active_game us = ''SLUS-20219'' then
          (if port us = 0 then split_adjust 0.035 0.9035 0.25 0.69 2.7 p
           else if port us = 1 then split_adjust 0.093 0.970 0.247 0.690 2.7 p
           else p)
        else if active_game us = ''SCES-50300'' then
          (if port us = 0 then split_adjust 0.02798462 0.90 0.25 0.6950202 2.7 p
           else if port us = 1 then split_adjust 0.093 0.970 0.247 0.690 2.7 p
           else p)
        else if active_game us = ''SCES-51844'' then
          (if port us = 0 then split_adjust 0.035 0.9035 0.247 0.690 3.0 p
           else if port us = 1 then split_adjust 0.095 0.97 0.247 0.690 3.0 p
           else p)
        else
          (if port us = 0 then split_adjust 0.035 0.9035 0.247 0.690 3.1 p
           else if port us = 1 then split_adjust 0.095 0.97 0.247 0.690 3.1 p
           else p)
      else p)"

text \<open>The game-configured offset of one axis: \<^verbatim>\<open>x -= param / 2\<close> (C++ division of the
  promoted \<^verbatim>\<open>s16\<close>, truncating towards zero) in progressive mode, \<^verbatim>\<open>x -= param\<close>
  otherwise; the subtraction is on \<^verbatim>\<open>s32\<close>.\<close>

definition apply_offset :: "u16 \<Rightarrow> s32 \<Rightarrow> s16 \<Rightarrow> s32" where
  "apply_offset mode x param =
     (if ucast mode AND GUNCON2_FLAG_PROGRESSIVE \<noteq> 0
      then x - word_of_int (sint param sdiv 2)
      else x - word_of_int (sint param))"

text \<open>\<^verbatim>\<open>static_cast<s16>(std::max(x, 1))\<close>: the signed maximum with 1, then the
  narrowing conversion, which keeps the low 16 bits.\<close>

definition clamp_narrow :: "s32 \<Rightarrow> s16" where
  "clamp_narrow x = ucast (if sint x < 1 then 1 else x)"

text \<open>Lines 759 to 797: the mapping of the (adjusted) pointer coordinates.\<close>

definition map_position :: "GunCon2State \<Rightarrow> real \<times> real \<Rightarrow> s16 \<times> s16" where
  "map_position us p =
     (let pointer_x = fst p; pointer_y = snd p in
      if pointer_x < 0 \<or> pointer_y < 0 then (0, 0)
      else
        let fx = fsub (fmul pointer_x (f32 (real (unat (screen_width us)))))
                      (f32 (real (unat (screen_width us div 2))));
            fy = fsub (fmul pointer_y (f32 (real (unat (screen_height us)))))
                      (f32 (real (unat (screen_height us div 2))));
            fx = fmul fx (scale_x us);
            fy = fmul fy (scale_y us);
            x = to_s32 (std_round (fadd fx (center_x us)));
            y = to_s32 (std_round (fadd fy (center_y us)));
            x = apply_offset (param_mode us) x (param_x us);
            y = apply_offset (param_mode us) y (param_y us)
        in (clamp_narrow x, clamp_narrow y))"

definition CalculatePosition :: "GunCon2State \<Rightarrow> real \<times> real \<Rightarrow> s16 \<times> s16" where
  "CalculatePosition us sample = map_position us (splitscreen_adjust us sample)"

subsection \<open>Host input: the raw event device\<close>

text \<open>\<^verbatim>\<open>struct input_event\<close> of \<^verbatim>\<open>linux/input.h\<close> (the time stamp is never read), and the
  event codes the handler switches on, with the values of that system header.\<close>

record input_event =
  ev_type :: u16
  ev_code :: u16
  ev_value :: s32

definition EV_KEY :: u16 where "EV_KEY = 0x01"
definition EV_ABS :: u16 where "EV_ABS = 0x03"
definition BTN_LEFT :: u16 where "BTN_LEFT = 0x110"
definition BTN_RIGHT :: u16 where "BTN_RIGHT = 0x111"
definition BTN_MIDDLE :: u16 where "BTN_MIDDLE = 0x112"

definition updateState :: "GunCon2State \<Rightarrow> nat \<Rightarrow> bool \<Rightarrow> GunCon2State" where
  "updateState us bid pressed =
     (let bit = (push_bit bid 1 :: u32) in
      if pressed then us\<lparr>button_state := button_state us OR bit\<rparr>
      else us\<lparr>button_state := button_state us AND NOT bit\<rparr>)"

text \<open>An \<^verbatim>\<open>EV_ABS\<close> event only updates \<^verbatim>\<open>udev_internalGunX/Y\<close>, which the model does not
  hold: the state is returned as it is.\<close>

definition udev_handle_event :: "GunCon2State \<Rightarrow> input_event \<Rightarrow> GunCon2State" where
  "udev_handle_event us event =
     (if ev_type event = EV_KEY then
        if ev_code event = BTN_LEFT then
          (let us = updateState us BID_TRIGGER (ev_value event \<noteq> 0) in
           if \<not> calibrated us then updateState us BID_RECALIBRATE (ev_value event \<noteq> 0)
           else us)
        else if ev_code event = BTN_RIGHT then
          (updateState us BID_A (ev_value event \<noteq> 0))\<lparr>calibrated := True\<rparr>
        else if ev_code event = BTN_MIDDLE then
          updateState us BID_B (ev_value event \<noteq> 0)
        else us
      else us)"

text \<open>\<^verbatim>\<open>udev_poll_gun\<close> drains the pending events; the list is what the non-blocking
  \<^verbatim>\<open>read\<close> calls of this poll return, in order.\<close>

fun udev_poll_gun :: "GunCon2State \<Rightarrow> input_event list \<Rightarrow> GunCon2State" where
  "udev_poll_gun us [] = us"
| "udev_poll_gun us (e # es) = udev_poll_gun (udev_handle_event us e) es"

subsection \<open>The data transfer\<close>

datatype usb_token = USB_TOKEN_IN | USB_TOKEN_OUT | USB_TOKEN_SETUP

datatype usb_status = USB_RET_STALL

datatype console =
    UsingAutomaticConfig string
  | NoAutomaticConfigFound string
  | UnhandledRequest

text \<open>What one call of \<^verbatim>\<open>guncon2_handle_data\<close> receives from outside: the packet's token
  and endpoint number, the raw events pending on the event device, and the pointer
  sample of this poll.\<close>

record poll_input =
  pid :: usb_token
  ep_nr :: nat
  drained :: "input_event list"
  pointer :: "real \<times> real"

definition recalibrate_active :: "GunCon2State \<Rightarrow> bool" where
  "recalibrate_active us = (button_state us AND push_bit BID_RECALIBRATE 1 \<noteq> 0)"

definition shoot_offscreen_active :: "GunCon2State \<Rightarrow> bool" where
  "shoot_offscreen_active us = (button_state us AND push_bit BID_SHOOT_OFFSCREEN 1 \<noteq> 0)"

text \<open>Lines 397 to 402: the start of a calibration sequence.\<close>

definition start_calibration :: "GunCon2State \<Rightarrow> s16 \<times> s16 \<Rightarrow> GunCon2State" where
  "start_calibration us pos =
     (if recalibrate_active us \<and> calibration_timer us = 0
      then us\<lparr>calibration_timer := ucast GUNCON2_CALIBRATION_DELAY,
              calibration_pos_x := fst pos, calibration_pos_y := snd pos\<rparr>
      else us)"

text \<open>\<^verbatim>\<open>out.buttons &= ~(1u << BID_TRIGGER)\<close>, computed on 32 bits and stored in the
  16-bit field.\<close>

definition clear_trigger :: "u16 \<Rightarrow> u16" where
  "clear_trigger b = ucast ((ucast b :: u32) AND NOT (push_bit BID_TRIGGER 1))"

text \<open>Lines 404 to 430: the report and the calibration override.\<close>

definition make_report :: "GunCon2State \<Rightarrow> s16 \<times> s16 \<Rightarrow> GunCon2State \<times> GunCon2Out" where
  "make_report us pos =
     (let out = \<lparr>buttons = ucast ((ucast (ucast (NOT (button_state us)) :: u16) :: u32)
                               OR (ucast (param_mode us) AND GUNCON2_FLAG_PROGRESSIVE)),
                 pos_x = fst pos, pos_y = snd pos\<rparr>
      in if calibration_timer us > 0 then
           let out = out\<lparr>buttons := clear_trigger (buttons out),
                         pos_x := calibration_pos_x us, pos_y := calibration_pos_y us\<rparr>;
               us = us\<lparr>calibration_timer := calibration_timer us - 1\<rparr>
           in if (ucast (calibration_timer us) :: u32) < GUNCON2_CALIBRATION_REPORT_DELAY
              then (us, out\<lparr>pos_x := 0, pos_y := 0\<rparr>)
              else (us, out)
         else if shoot_offscreen_active us then
           (us, out\<lparr>buttons := clear_trigger (buttons out), pos_x := 0, pos_y := 0\<rparr>)
         else (us, out))"

text \<open>The state on which the report is built: the event device is drained first, whatever
  the token.\<close>

definition poll_events :: "GunCon2State \<Rightarrow> poll_input \<Rightarrow> GunCon2State" where
  "poll_events us p = (if udev_has us then udev_poll_gun us (drained p) else us)"

definition guncon2_handle_data ::
  "GunCon2State \<Rightarrow> poll_input \<Rightarrow> GunCon2State \<times> console list \<times> (usb_status + GunCon2Out)" where
  "guncon2_handle_data us0 p =
     (let us = poll_events us0 p in
      if pid p = USB_TOKEN_IN \<and> ep_nr p = 1 then
        let pos = CalculatePosition us (pointer p);
            us = start_calibration us pos;
            (us, out) = make_report us pos
        in (us, [], Inr out)
      else (us, [UnhandledRequest], Inl USB_RET_STALL))"

subsection \<open>Profile selection and the control transfer\<close>

text \<open>The loop of \<^verbatim>\<open>AutoConfigure\<close> over the table; the console lines are recorded by
  kind (the three lines that print the selected values are left out).\<close>

fun AutoConfigure_scan ::
  "GameConfig list \<Rightarrow> string \<Rightarrow> GunCon2State \<Rightarrow> GunCon2State \<times> console list" where
  "AutoConfigure_scan [] serial us = (us, [NoAutomaticConfigFound serial])"
| "AutoConfigure_scan (gc # gcs) serial us =
     (if serial \<noteq> gc_serial gc then AutoConfigure_scan gcs serial us
      else (us\<lparr>active_game := serial,
               scale_x := fdiv (gc_scale_x gc) 100, scale_y := fdiv (gc_scale_y gc) 100,
               center_x := f32 (real (unat (gc_center_x gc))),
               center_y := f32 (real (unat (gc_center_y gc))),
               screen_width := gc_screen_width gc, screen_height := gc_screen_height gc\<rparr>,
            [UsingAutomaticConfig serial]))"

text \<open>\<^verbatim>\<open>serial\<close> is the value of \<^verbatim>\<open>VMManager::GetDiscSerial()\<close> at the call.\<close>

definition AutoConfigure :: "GunCon2State \<Rightarrow> string \<Rightarrow> GunCon2State \<times> console list" where
  "AutoConfigure us serial = AutoConfigure_scan s_game_config serial us"

text \<open>What one call of \<^verbatim>\<open>guncon2_handle_control\<close> receives: the request code, the data
  buffer, the title identifier current at the call, the return value of the generic
  \<^verbatim>\<open>usb_desc_handle_control\<close> (which works on the \<^verbatim>\<open>USBDevice\<close> part only), and the value
  of the constant \<^verbatim>\<open>ClassInterfaceOutRequest\<close> of the USB core's header.\<close>

record control_input =
  request :: int
  data :: "nat \<Rightarrow> u8"
  disc_serial :: string
  usb_desc_handle_control :: int
  ClassInterfaceOutRequest :: int

datatype control_done = DescriptorHandled | ParameterSet

definition le16 :: "u8 \<Rightarrow> u8 \<Rightarrow> u16" where
  "le16 lo hi = (ucast lo :: u16) OR push_bit 8 (ucast hi :: u16)"

text \<open>Lines 293 to 299: configuration on the first control packet.\<close>

definition first_control_config ::
  "GunCon2State \<Rightarrow> string \<Rightarrow> GunCon2State \<times> console list" where
  "first_control_config us serial =
     (if \<not> auto_config_done us \<and> \<not> custom_config us
      then let (us, msgs) = AutoConfigure us serial in (us\<lparr>auto_config_done := True\<rparr>, msgs)
      else (us, []))"

definition guncon2_handle_control ::
  "GunCon2State \<Rightarrow> control_input \<Rightarrow> GunCon2State \<times> console list \<times> (usb_status + control_done)" where
  "guncon2_handle_control us0 c =
     (let (us, msgs) = first_control_config us0 (disc_serial c) in
      if usb_desc_handle_control c \<ge> 0 then (us, msgs, Inr DescriptorHandled)
      else if request c = (ClassInterfaceOutRequest c OR 0x09) then
        (us\<lparr>param_x := le16 (data c 0) (data c 1),
            param_y := le16 (data c 2) (data c 3),
            param_mode := le16 (data c 4) (data c 5)\<rparr>, msgs, Inr ParameterSet)
      else (us, msgs, Inl USB_RET_STALL))"

subsection \<open>Settings\<close>

text \<open>The values that the typed configuration lookups of \<^verbatim>\<open>UpdateSettings\<close> return
  (\<^verbatim>\<open>USB::GetConfigBool\<close>, \<^verbatim>\<open>GetConfigInt\<close>, \<^verbatim>\<open>GetConfigFloat\<close> with the defaults passed
  at the call, and \<^verbatim>\<open>ConfigKeyExists\<close> for the four relative-axis bindings).\<close>

record SettingsInterface =
  si_custom_config :: bool
  si_split_screen_hack :: bool
  si_split_screen_full_stretch :: bool
  si_screen_width :: s32
  si_screen_height :: s32
  si_center_x :: real
  si_center_y :: real
  si_scale_x :: real
  si_scale_y :: real
  si_RelativeLeft :: bool
  si_RelativeRight :: bool
  si_RelativeUp :: bool
  si_RelativeDown :: bool

text \<open>\<^verbatim>\<open>UpdateSettings\<close> without its software-cursor part, which works on fields the
  model does not hold.\<close>

definition UpdateSettings :: "GunCon2State \<Rightarrow> SettingsInterface \<Rightarrow> GunCon2State" where
  "UpdateSettings s0 si =
     (let s = s0\<lparr>custom_config := si_custom_config si,
                 split_screen_hack := si_split_screen_hack si,
                 split_screen_full_stretch := si_split_screen_full_stretch si\<rparr>;
          s = (if \<not> auto_config_done s \<or> custom_config s
               then s\<lparr>screen_width := si_screen_width si,
                      screen_height := si_screen_height si,
                      center_x := si_center_x si,
                      center_y := si_center_y si,
                      scale_x := fdiv (si_scale_x si) 100,
                      scale_y := fdiv (si_scale_y si) 100\<rparr>
               else s)
      in s\<lparr>has_relative_binds :=
             (si_RelativeLeft si \<or> si_RelativeRight si \<or> si_RelativeUp si \<or> si_RelativeDown si)\<rparr>)"

subsection \<open>Bindings\<close>

text \<open>\<^verbatim>\<open>1u << bind_index\<close> is defined in C++ for \<open>bind_index < 32\<close> only; beyond that the
  model's \<open>push_bit\<close> gives 0. The float result \<^verbatim>\<open>1.0f\<close>/\<^verbatim>\<open>0.0f\<close> is the real 1 or 0.\<close>

definition GetBindingValue :: "GunCon2State \<Rightarrow> nat \<Rightarrow> real" where
  "GetBindingValue s bind_index =
     (let bit = (push_bit bind_index 1 :: u32) in
      if button_state s AND bit \<noteq> 0 then 1 else 0)"

text \<open>\<^verbatim>\<open>UpdateSoftwarePointerPosition\<close>, called when a relative axis changes, has no
  effect on the state (its cursor call is commented out in the source).\<close>

definition SetBindingValue :: "GunCon2State \<Rightarrow> nat \<Rightarrow> real \<Rightarrow> GunCon2State" where
  "SetBindingValue s bind_index v =
     (if bind_index < BID_RELATIVE_LEFT then
        let bit = (push_bit bind_index 1 :: u32) in
        if v \<ge> 0.5 then s\<lparr>button_state := button_state s OR bit\<rparr>
        else s\<lparr>button_state := button_state s AND NOT bit\<rparr>
      else if bind_index \<le> BID_RELATIVE_DOWN then
        let rel_index = bind_index - BID_RELATIVE_LEFT in
        if relative_pos s ! rel_index \<noteq> v
        then s\<lparr>relative_pos := (relative_pos s)[rel_index := v]\<rparr>
        else s
      else s)"

subsection \<open>Save states\<close>

text \<open>The fields of a snapshot, in the order \<^verbatim>\<open>Freeze\<close> passes them to \<^verbatim>\<open>sw.Do\<close>.\<close>

record snapshot =
  sn_param_x :: s16
  sn_param_y :: s16
  sn_param_mode :: u16
  sn_calibration_timer :: u16
  sn_calibration_pos_x :: s16
  sn_calibration_pos_y :: s16
  sn_auto_config_done :: bool
  sn_scale_x :: real
  sn_scale_y :: real
  sn_center_x :: real
  sn_center_y :: real
  sn_screen_width :: u32
  sn_screen_height :: u32

text \<open>The \<^verbatim>\<open>StateWrapper\<close> as \<^verbatim>\<open>Freeze\<close> sees it: its mode, the result of
  \<^verbatim>\<open>DoMarker("GunCon2Device")\<close>, the values that the \<^verbatim>\<open>Do\<close> calls deliver when it reads,
  and \<^verbatim>\<open>HasError()\<close> after the last of them.\<close>

record StateWrapper =
  IsReading :: bool
  DoMarker :: bool
  stream :: snapshot
  HasError :: bool

definition capture :: "GunCon2State \<Rightarrow> snapshot" where
  "capture s =
     \<lparr>sn_param_x = param_x s, sn_param_y = param_y s, sn_param_mode = param_mode s,
      sn_calibration_timer = calibration_timer s,
      sn_calibration_pos_x = calibration_pos_x s, sn_calibration_pos_y = calibration_pos_y s,
      sn_auto_config_done = auto_config_done s,
      sn_scale_x = scale_x s, sn_scale_y = scale_y s,
      sn_center_x = center_x s, sn_center_y = center_y s,
      sn_screen_width = screen_width s, sn_screen_height = screen_height s\<rparr>"

text \<open>\<^verbatim>\<open>Freeze\<close> returns its boolean, the device state, and the snapshot written when the
  wrapper is in write mode. In read mode each \<^verbatim>\<open>sw.Do(&field)\<close> overwrites the field,
  so the test of \<^verbatim>\<open>s->auto_config_done\<close> at line 1197 reads the restored flag.\<close>

definition Freeze :: "GunCon2State \<Rightarrow> StateWrapper \<Rightarrow> bool \<times> GunCon2State \<times> snapshot option" where
  "Freeze s0 sw =
     (if \<not> DoMarker sw then (False, s0, None)
      else if IsReading sw then
        let v = stream sw;
            s = s0\<lparr>param_x := sn_param_x v, param_y := sn_param_y v,
                   param_mode := sn_param_mode v,
                   calibration_timer := sn_calibration_timer v,
                   calibration_pos_x := sn_calibration_pos_x v,
                   calibration_pos_y := sn_calibration_pos_y v,
                   auto_config_done := sn_auto_config_done v\<rparr>;
            s = (if \<not> custom_config s \<and> auto_config_done s
                 then s\<lparr>scale_x := sn_scale_x v, scale_y := sn_scale_y v,
                        center_x := sn_center_x v, center_y := sn_center_y v,
                        screen_width := sn_screen_width v,
                        screen_height := sn_screen_height v\<rparr>
                 else s)
        in (\<not> HasError sw, s, None)
      else (\<not> HasError sw, s0, Some (capture s0)))"

subsection \<open>The life of a device instance\<close>

text \<open>The entry points through which the host reaches one device, and a step for the
  two background threads, which write \<^verbatim>\<open>active_game\<close> and \<^verbatim>\<open>splitscreen_activated\<close>.\<close>

datatype operation =
    Control control_input
  | Data poll_input
  | Settings SettingsInterface
  | Binding nat real
  | SaveLoad StateWrapper
  | Background string bool

fun exec :: "GunCon2State \<Rightarrow> operation \<Rightarrow> GunCon2State \<times> console list" where
  "exec us (Control c) = (let (us, msgs, r) = guncon2_handle_control us c in (us, msgs))"
| "exec us (Data p) = (let (us, msgs, r) = guncon2_handle_data us p in (us, msgs))"
| "exec us (Settings si) = (UpdateSettings us si, [])"
| "exec us (Binding i v) = (SetBindingValue us i v, [])"
| "exec us (SaveLoad sw) = (let (ok, us, w) = Freeze us sw in (us, []))"
| "exec us (Background g sp) = (us\<lparr>active_game := g, splitscreen_activated := sp\<rparr>, [])"

fun run :: "GunCon2State \<Rightarrow> operation list \<Rightarrow> GunCon2State \<times> console list" where
  "run us [] = (us, [])"
| "run us (op # ops) =
     (let (us1, msgs1) = exec us op; (us2, msgs2) = run us1 ops in (us2, msgs1 @ msgs2))"

text \<open>Each call of \<^verbatim>\<open>AutoConfigure\<close> prints exactly one of its two headlines, so the
  number of those lines on the console is the number of profile selections made.\<close>

fun is_selection :: "console \<Rightarrow> bool" where
  "is_selection (UsingAutomaticConfig _) = True"
| "is_selection (NoAutomaticConfigFound _) = True"
| "is_selection UnhandledRequest = False"

definition selections :: "console list \<Rightarrow> nat" where
  "selections msgs = length (filter is_selection msgs)"

fun is_restore :: "operation \<Rightarrow> bool" where
  "is_restore (SaveLoad sw) = IsReading sw"
| "is_restore _ = False"

text \<open>The six fields that make up the screen profile.\<close>

definition profile :: "GunCon2State \<Rightarrow> real \<times> real \<times> real \<times> real \<times> u32 \<times> u32" where
  "profile s = (scale_x s, scale_y s, center_x s, center_y s, screen_width s, screen_height s)"

text \<open>The parameters a title sets with its control request, and the state that the
  split-screen adjustment reads.\<close>

definition device_params :: "GunCon2State \<Rightarrow> s16 \<times> s16 \<times> u16" where
  "device_params s = (param_x s, param_y s, param_mode s)"

definition split_context :: "GunCon2State \<Rightarrow> string \<times> bool \<times> u32" where
  "split_context s = (active_game s, splitscreen_activated s, port s)"

text \<open>The replies to the data transfers of a run, in order.\<close>

fun reports :: "GunCon2State \<Rightarrow> operation list \<Rightarrow> (usb_status + GunCon2Out) list" where
  "reports us [] = []"
| "reports us (Data p # ops) =
     (let (us1, msgs, r) = guncon2_handle_data us p in r # reports us1 ops)"
| "reports us (op # ops) = reports (fst (exec us op)) ops"

fun is_report_poll :: "operation \<Rightarrow> bool" where
  "is_report_poll (Data p) = (pid p = USB_TOKEN_IN \<and> ep_nr p = 1)"
| "is_report_poll _ = False"

fun is_poll :: "operation \<Rightarrow> bool" where
  "is_poll (Data p) = True"
| "is_poll _ = False"

definition position :: "GunCon2Out \<Rightarrow> s16 \<times> s16" where
  "position out = (pos_x out, pos_y out)"

subsection \<open>Notions of the specification\<close>

text \<open>Buttons are active low: the report carries the complement of \<^verbatim>\<open>button_state\<close>, in
  which a set bit is a pressed button. A button is therefore reported as released when
  its bit of the mask is 1, and as pressed when it is 0.\<close>

definition trigger_released :: "GunCon2Out \<Rightarrow> bool" where
  "trigger_released out = bit (buttons out) BID_TRIGGER"





text \<open>The state of the calibration sequence.\<close>

definition frozen_position :: "GunCon2State \<Rightarrow> s16 \<times> s16" where
  "frozen_position us = (calibration_pos_x us, calibration_pos_y us)"

definition calibration :: "GunCon2State \<Rightarrow> u16 \<times> s16 \<times> s16" where
  "calibration us = (calibration_timer us, calibration_pos_x us, calibration_pos_y us)"

text \<open>What profile selection reads and writes.\<close>

definition configuration :: "GunCon2State \<Rightarrow> bool \<times> bool \<times> (real \<times> real \<times> real \<times> real \<times> u32 \<times> u32)" where
  "configuration us = (auto_config_done us, custom_config us, profile us)"

subsection \<open>Concrete inputs\<close>

definition poll_at :: "real \<times> real \<Rightarrow> poll_input" where
  "poll_at p = \<lparr>pid = USB_TOKEN_IN, ep_nr = 1, drained = [], pointer = p\<rparr>"

definition recalibrating :: GunCon2State where
  "recalibrating = (GunCon2State_init 0)\<lparr>button_state := 0x20000\<rparr>"

definition eleven_polls :: "operation list" where
  "eleven_polls =
     [Data (poll_at (1 / 4, 1 / 4)), Data (poll_at (1 / 4, 1 / 4)), Binding 17 0,
      Data (poll_at (1 / 4, 1 / 4)), Binding 17 1, Data (poll_at (1 / 4, 1 / 4)),
      Data (poll_at (1 / 4, 1 / 4)), Data (poll_at (1 / 4, 1 / 4)),
      Data (poll_at (3 / 4, 3 / 4)), Data (poll_at (3 / 4, 3 / 4)),
      Data (poll_at (3 / 4, 3 / 4)), Binding 17 0, Data (poll_at (3 / 4, 3 / 4)),
      Data (poll_at (3 / 4, 3 / 4))]"

definition calibrating :: GunCon2State where
  "calibrating = (GunCon2State_init 0)\<lparr>calibration_timer := 3\<rparr>"

definition shooting_offscreen :: GunCon2State where
  "shooting_offscreen = (GunCon2State_init 0)\<lparr>button_state := 0x10000\<rparr>"

definition crisis_zone :: GameConfig where
  "crisis_zone = mk_gc ''SLUS-20927'' 90.25 99.0 390 153 640 240"

definition wrapping :: GunCon2State where
  "wrapping = (GunCon2State_init 0)\<lparr>custom_config := True, center_x := 32768, center_y := 32768,
                 param_x := 0x8000, param_y := 0x8000\<rparr>"


definition split_screen :: GunCon2State where
  "split_screen = (GunCon2State_init 0)\<lparr>active_game := ''SLUS-20219'', splitscreen_activated := True\<rparr>"

definition manual_settings :: SettingsInterface where
  "manual_settings =
     \<lparr>si_custom_config = True, si_split_screen_hack = False, si_split_screen_full_stretch = False,
      si_screen_width = 512, si_screen_height = 256, si_center_x = 300, si_center_y = 130,
      si_scale_x = 50, si_scale_y = 200, si_RelativeLeft = False, si_RelativeRight = False,
      si_RelativeUp = False, si_RelativeDown = False\<rparr>"

definition snapshot_auto :: snapshot where
  "snapshot_auto =
     \<lparr>sn_param_x = 5, sn_param_y = 6, sn_param_mode = 0x0100, sn_calibration_timer = 3,
      sn_calibration_pos_x = 100, sn_calibration_pos_y = 50, sn_auto_config_done = True,
      sn_scale_x = 7 / 8, sn_scale_y = 15 / 16, sn_center_x = 320, sn_center_y = 134,
      sn_screen_width = 640, sn_screen_height = 240\<rparr>"

definition reader :: "bool \<Rightarrow> snapshot \<Rightarrow> StateWrapper" where
  "reader marker v = \<lparr>IsReading = True, DoMarker = marker, stream = v, HasError = False\<rparr>"

definition stall_request :: control_input where
  "stall_request =
     \<lparr>request = 0x2101, data = (\<lambda>i. 0), disc_serial = ''SLUS-20927'',
      usb_desc_handle_control = - 1, ClassInterfaceOutRequest = 0x2100\<rparr>"

definition set_param_request :: control_input where
  "set_param_request =
     \<lparr>request = 0x2109, data = (\<lambda>i. if i < 6 then [0x34, 0x12, 0xFE, 0xFF, 0x00, 0x01] ! i else 0),
      disc_serial = ''SLUS-20927'',
      usb_desc_handle_control = - 1, ClassInterfaceOutRequest = 0x2100\<rparr>"

definition session :: "operation list" where
  "session = [Control stall_request, Data (poll_at (1 / 2, 1 / 2)), Control set_param_request,
              Settings manual_settings, Binding 13 1]"

definition manual :: GunCon2State where
  "manual = UpdateSettings (GunCon2State_init 0) manual_settings"

lemmas BID_defs =
  BID_C_def BID_B_def BID_A_def BID_DPAD_UP_def BID_DPAD_RIGHT_def BID_DPAD_DOWN_def
  BID_DPAD_LEFT_def BID_TRIGGER_def BID_SELECT_def BID_START_def BID_SHOOT_OFFSCREEN_def
  BID_RECALIBRATE_def BID_RELATIVE_LEFT_def BID_RELATIVE_RIGHT_def BID_RELATIVE_UP_def
  BID_RELATIVE_DOWN_def

section \<open>The rounding functions\<close>

text \<open>The exponent brackets the magnitude between two powers of two, \<open>round_even\<close> is
  within one half of its argument, and so the rounding to a format moves a value by at
  most half the spacing of its binade.\<close>

lemma expo_up_bounds:
  "1 \<le> x \<Longrightarrow> 0 \<le> expo_up x \<and> 2 ^ nat (expo_up x) \<le> x \<and> x < 2 * 2 ^ nat (expo_up x)"
proof (induction x rule: expo_up.induct)
  case (1 x)
  show ?case
  proof (cases "2 \<le> x")
    case True
    then have h: "1 \<le> x / 2" by simp
    note IH = "1.IH" [OF True h]
    have e: "expo_up x = 1 + expo_up (x / 2)"
      using True by (subst expo_up.simps) simp
    have "0 \<le> expo_up (x / 2)" using IH by blast
    then have n: "nat (1 + expo_up (x / 2)) = Suc (nat (expo_up (x / 2)))"
      by linarith
    show ?thesis using IH unfolding e n by simp
  next
    case False
    then have "expo_up x = 0" by (subst expo_up.simps) simp
    then show ?thesis using False "1.prems" by simp
  qed
qed

lemma expo_down_bounds:
  "0 < x \<Longrightarrow> x < 1 \<Longrightarrow>
     expo_down x < 0 \<and> 1 / 2 ^ nat (- expo_down x) \<le> x \<and> x < 2 / 2 ^ nat (- expo_down x)"
proof (induction x rule: expo_down.induct)
  case (1 x)
  have c: "0 < x \<and> x < 1" using "1.prems" by simp
  have e: "expo_down x = expo_down (2 * x) - 1"
    using c by (subst expo_down.simps) simp
  show ?case
  proof (cases "2 * x < 1")
    case True
    have p: "0 < 2 * x" using c by simp
    note IH = "1.IH" [OF c p True]
    have "expo_down (2 * x) < 0" using IH by blast
    then have n: "nat (- (expo_down (2 * x) - 1)) = Suc (nat (- expo_down (2 * x)))"
      by linarith
    show ?thesis using IH unfolding e n by (simp add: field_simps)
  next
    case False
    then have "expo_down (2 * x) = 0" by (subst expo_down.simps) simp
    then show ?thesis using False c unfolding e by simp
  qed
qed

lemma exponent_bounds:
  assumes "x \<noteq> 0"
  shows "pow2 (exponent x) \<le> \<bar>x\<bar> \<and> \<bar>x\<bar> < 2 * pow2 (exponent x)"
proof (cases "1 \<le> \<bar>x\<bar>")
  case True
  then show ?thesis
    using expo_up_bounds [OF True] by (simp add: exponent_def pow2_def)
next
  case False
  then have "0 < \<bar>x\<bar>" and "\<bar>x\<bar> < 1" using assms by simp_all
  then show ?thesis
    using expo_down_bounds [of "\<bar>x\<bar>"] False by (simp add: exponent_def pow2_def)
qed

lemma round_even_nearest: "\<bar>x - real_of_int (round_even x)\<bar> \<le> 1 / 2"
proof -
  define f where "f = \<lfloor>x\<rfloor>"
  have a: "real_of_int f \<le> x" unfolding f_def by (rule of_int_floor_le)
  have b: "x < real_of_int f + 1" unfolding f_def by (rule real_of_int_floor_add_one_gt)
  have "round_even x = (if x - of_int f < 1 / 2 then f else if 1 / 2 < x - of_int f then f + 1
                        else if even f then f else f + 1)"
    by (simp add: round_even_def Let_def f_def)
  then show ?thesis using a b by (auto split: if_splits)
qed

lemma pow2_pos: "0 < pow2 q"
  by (simp add: pow2_def)

lemma rnd_error:
  "\<bar>rnd p emin x - x\<bar> \<le> pow2 (max (exponent x - int p + 1) emin) / 2"
proof -
  define q where "q = max (exponent x - int p + 1) emin"
  have r: "rnd p emin x = of_int (round_even (x / pow2 q)) * pow2 q"
    by (simp add: rnd_def Let_def q_def)
  have "\<bar>x / pow2 q - real_of_int (round_even (x / pow2 q))\<bar> \<le> 1 / 2"
    by (rule round_even_nearest)
  then have "\<bar>x / pow2 q - real_of_int (round_even (x / pow2 q))\<bar> * pow2 q \<le> 1 / 2 * pow2 q"
    using pow2_pos [of q] by (simp add: mult_right_mono)
  moreover have "\<bar>x / pow2 q - real_of_int (round_even (x / pow2 q))\<bar> * pow2 q
        = \<bar>x - real_of_int (round_even (x / pow2 q)) * pow2 q\<bar>"
  proof -
    have "\<bar>x / pow2 q - real_of_int (round_even (x / pow2 q))\<bar> * pow2 q
          = \<bar>(x / pow2 q - real_of_int (round_even (x / pow2 q))) * pow2 q\<bar>"
      using pow2_pos [of q] by (simp add: abs_mult)
    also have "(x / pow2 q - real_of_int (round_even (x / pow2 q))) * pow2 q
          = x - real_of_int (round_even (x / pow2 q)) * pow2 q"
      using pow2_pos [of q] by (simp add: field_simps)
    finally show ?thesis .
  qed
  ultimately show ?thesis unfolding r q_def [symmetric] by (simp add: abs_minus_commute)
qed

section \<open>Evaluating the floating-point operations\<close>

text \<open>The exponent search as conditional equations, and the rounding unfolded at
  literals only, so that the simplifier evaluates an operation once its operands are
  numbers.\<close>

lemma expo_up_step: "2 \<le> x \<Longrightarrow> expo_up x = 1 + expo_up (x / 2)"
  by (subst expo_up.simps) simp

lemma expo_up_stop: "x < 2 \<Longrightarrow> expo_up x = 0"
  by (subst expo_up.simps) simp

lemma expo_down_step: "0 < x \<Longrightarrow> x < 1 \<Longrightarrow> expo_down x = expo_down (2 * x) - 1"
  by (subst expo_down.simps) simp

lemma expo_down_stop: "1 \<le> x \<Longrightarrow> expo_down x = 0"
  by (subst expo_down.simps) simp

lemma expo_down_zero: "expo_down 0 = 0"
  by (subst expo_down.simps) simp

lemmas rnd_literal =
  rnd_def [where x = "0"]
  rnd_def [where x = "1"]
  rnd_def [where x = "- 1"]
  rnd_def [where x = "numeral n" for n]
  rnd_def [where x = "- numeral n" for n]
  rnd_def [where x = "1 / numeral d" for d]
  rnd_def [where x = "- (1 / numeral d)" for d]
  rnd_def [where x = "numeral n / numeral d" for n d]
  rnd_def [where x = "- (numeral n / numeral d)" for n d]

lemmas float_eval =
  f32_def f64_def rnd_literal pow2_def exponent_def round_even_def
  fadd_def fsub_def fmul_def fdiv_def dadd_def dmul_def
  expo_up_step expo_up_stop expo_down_step expo_down_stop expo_down_zero Let_def

lemmas map_eval =
  GunCon2State_init_def CalculatePosition_def
  splitscreen_adjust_def split_adjust_def map_position_def std_round_def to_s32_def apply_offset_def
  clamp_narrow_def GUNCON2_FLAG_PROGRESSIVE_def float_eval

text \<open>Numbers that binary32 holds are left as they are; others move to a neighbour.\<close>

lemma f32_examples:
  "f32 0 = 0" "f32 (1 / 2) = 1 / 2" "f32 640 = 640" "f32 16777216 = 16777216"
  "f32 16777217 = 16777216" "f32 (1 / 10) = 13421773 / 134217728"
  "f64 (1 / 10) = 3602879701896397 / 36028797018963968"
  by (simp_all add: float_eval)

section \<open>Input bindings\<close>

lemma push_bit_one_nonzero: "n < 32 \<Longrightarrow> (push_bit n 1 :: u32) \<noteq> 0"
proof
  assume z: "(push_bit n 1 :: u32) = 0" and n: "n < 32"
  have b: "bit (push_bit n 1 :: u32) n" using n by (simp add: bit_simps)
  have "\<not> bit (0 :: u32) n" by simp
  with b show False unfolding z by blast
qed

lemma set_then_test: "n < 32 \<Longrightarrow> ((b :: u32) OR push_bit n 1) AND push_bit n 1 \<noteq> 0"
  using push_bit_one_nonzero [of n] by (simp add: word_ao_absorbs)

lemma clear_then_test: "((b :: u32) AND NOT (push_bit n 1)) AND push_bit n 1 = 0"
  by (simp add: and.assoc)

text \<open>
  C10. For every \<open>bind_index\<close> below the first relative-axis index (18), after
  \<open>SetBindingValue\<close> the call \<open>GetBindingValue\<close> on the same index returns 1 if the value
  was at least 0.5 and 0 otherwise, and \<open>relative_pos\<close> is unchanged. For \<open>bind_index\<close>
  from 18 to 21, \<open>SetBindingValue\<close> changes nothing but the entry \<open>bind_index - 18\<close> of
  \<open>relative_pos\<close>, which becomes the value; the button mask is unchanged.
\<close>

theorem binding_roundtrip:
  "(bind_index < BID_RELATIVE_LEFT \<longrightarrow>
      GetBindingValue (SetBindingValue s bind_index v) bind_index = (if v \<ge> 0.5 then 1 else 0)
      \<and> relative_pos (SetBindingValue s bind_index v) = relative_pos s)
   \<and> (BID_RELATIVE_LEFT \<le> bind_index \<and> bind_index \<le> BID_RELATIVE_DOWN \<longrightarrow>
      SetBindingValue s bind_index v
        = s\<lparr>relative_pos := (relative_pos s)[bind_index - BID_RELATIVE_LEFT := v]\<rparr>
      \<and> button_state (SetBindingValue s bind_index v) = button_state s)"
proof (intro conjI impI)
  assume lt: "bind_index < BID_RELATIVE_LEFT"
  then have n: "bind_index < 32" by (simp add: BID_RELATIVE_LEFT_def)
  show "GetBindingValue (SetBindingValue s bind_index v) bind_index = (if v \<ge> 0.5 then 1 else 0)"
    using lt set_then_test [OF n] clear_then_test [of _ bind_index]
    by (simp add: GetBindingValue_def SetBindingValue_def Let_def)
  show "relative_pos (SetBindingValue s bind_index v) = relative_pos s"
    using lt by (simp add: SetBindingValue_def Let_def)
next
  assume r: "BID_RELATIVE_LEFT \<le> bind_index \<and> bind_index \<le> BID_RELATIVE_DOWN"
  show "SetBindingValue s bind_index v
        = s\<lparr>relative_pos := (relative_pos s)[bind_index - BID_RELATIVE_LEFT := v]\<rparr>"
  proof (cases "relative_pos s ! (bind_index - BID_RELATIVE_LEFT) = v")
    case True
    then have "(relative_pos s)[bind_index - BID_RELATIVE_LEFT := v] = relative_pos s"
      by (metis list_update_id)
    then show ?thesis using r True by (simp add: SetBindingValue_def Let_def)
  next
    case False
    then show ?thesis using r by (simp add: SetBindingValue_def Let_def)
  qed
  show "button_state (SetBindingValue s bind_index v) = button_state s"
    using r by (simp add: SetBindingValue_def Let_def)
qed

theorem binding_roundtrip_witness:
  "(13 :: nat) < BID_RELATIVE_LEFT
   \<and> GetBindingValue (SetBindingValue (GunCon2State_init 0) 13 1) 13 = 1
   \<and> relative_pos (SetBindingValue (GunCon2State_init 0) 13 1) = [0, 0, 0, 0]
   \<and> BID_RELATIVE_LEFT \<le> (19 :: nat) \<and> (19 :: nat) \<le> BID_RELATIVE_DOWN
   \<and> SetBindingValue (GunCon2State_init 0) 19 (3 / 4)
       = (GunCon2State_init 0)\<lparr>relative_pos := [0, 3 / 4, 0, 0]\<rparr>
   \<and> button_state (SetBindingValue (GunCon2State_init 0) 19 (3 / 4)) = 0"
  using binding_roundtrip [of 13 "GunCon2State_init 0" 1]
        binding_roundtrip [of 19 "GunCon2State_init 0" "3 / 4"]
  by (simp add: BID_defs GunCon2State_init_def)

section \<open>The calibration sequence\<close>

lemma calibration_update [simp]:
  "calibration (port_update f0 us) = calibration us"
  "calibration (has_relative_binds_update f1 us) = calibration us"
  "calibration (custom_config_update f2 us) = calibration us"
  "calibration (split_screen_hack_update f3 us) = calibration us"
  "calibration (split_screen_full_stretch_update f4 us) = calibration us"
  "calibration (screen_width_update f5 us) = calibration us"
  "calibration (screen_height_update f6 us) = calibration us"
  "calibration (center_x_update f7 us) = calibration us"
  "calibration (center_y_update f8 us) = calibration us"
  "calibration (scale_x_update f9 us) = calibration us"
  "calibration (scale_y_update f10 us) = calibration us"
  "calibration (calibrated_update f11 us) = calibration us"
  "calibration (button_state_update f12 us) = calibration us"
  "calibration (relative_pos_update f13 us) = calibration us"
  "calibration (param_x_update f14 us) = calibration us"
  "calibration (param_y_update f15 us) = calibration us"
  "calibration (param_mode_update f16 us) = calibration us"
  "calibration (auto_config_done_update f17 us) = calibration us"
  "calibration (active_game_update f18 us) = calibration us"
  "calibration (splitscreen_activated_update f19 us) = calibration us"
  "calibration (udev_fd_update f20 us) = calibration us"
  by (simp_all add: calibration_def)

lemma calibration_updateState [simp]: "calibration (updateState us b v) = calibration us"
  by (simp add: updateState_def Let_def)

lemma calibration_udev_handle_event [simp]: "calibration (udev_handle_event us e) = calibration us"
  by (simp add: udev_handle_event_def Let_def)

lemma calibration_udev_poll_gun [simp]: "calibration (udev_poll_gun us es) = calibration us"
  by (induction es arbitrary: us) simp_all

lemma calibration_poll_events [simp]: "calibration (poll_events us p) = calibration us"
  by (simp add: poll_events_def)

lemma calibration_scan [simp]: "calibration (fst (AutoConfigure_scan tab serial us)) = calibration us"
  by (induction tab) simp_all

lemma calibration_first_control_config [simp]:
  "calibration (fst (first_control_config us serial)) = calibration us"
proof -
  have "calibration (fst (AutoConfigure us serial)) = calibration us"
    by (simp add: AutoConfigure_def)
  then show ?thesis
    by (auto simp add: first_control_config_def split: prod.splits)
qed

lemma calibration_control [simp]:
  "calibration (fst (guncon2_handle_control us c)) = calibration us"
proof -
  obtain us1 m where eq: "first_control_config us (disc_serial c) = (us1, m)"
    by (cases "first_control_config us (disc_serial c)")
  have "calibration (fst (first_control_config us (disc_serial c))) = calibration us" by simp
  then have "calibration us1 = calibration us" by (simp add: eq)
  then show ?thesis
    by (simp add: guncon2_handle_control_def eq)
qed

lemma calibration_settings [simp]: "calibration (UpdateSettings us si) = calibration us"
  by (simp add: UpdateSettings_def Let_def)

lemma calibration_binding [simp]: "calibration (SetBindingValue us i v) = calibration us"
  by (simp add: SetBindingValue_def Let_def)

lemma calibration_exec:
  "\<not> is_poll op \<Longrightarrow> \<not> is_restore op \<Longrightarrow> calibration (fst (exec us op)) = calibration us"
proof (cases op)
  case (Control c)
  obtain us1 m r where eq: "guncon2_handle_control us c = (us1, m, r)"
    by (cases "guncon2_handle_control us c")
  have "calibration (fst (guncon2_handle_control us c)) = calibration us" by simp
  then show ?thesis using Control by (simp add: eq)
next
  case (SaveLoad sw)
  assume "\<not> is_restore op"
  then show ?thesis using SaveLoad by (simp add: Freeze_def)
next
  case (Background g sp)
  then show ?thesis by simp
qed simp_all


lemma calibrationD:
  "calibration a = calibration b \<Longrightarrow>
     calibration_timer a = calibration_timer b \<and> frozen_position a = frozen_position b"
  by (simp add: calibration_def frozen_position_def)

lemma timer_below_report_delay:
  "t \<noteq> 0 \<Longrightarrow>
     ((ucast (t - 1 :: u16) :: u32) < GUNCON2_CALIBRATION_REPORT_DELAY) = (unat t - 1 < 5)"
proof -
  assume "t \<noteq> 0"
  then have "unat (t - 1) = unat t - 1" by (simp add: unat_minus_one)
  moreover have "unat (ucast (t - 1 :: u16) :: u32) = unat (t - 1)"
  proof -
    have "unat (t - 1) < 2 ^ 16" by (rule order_less_le_trans [OF unsigned_less]) simp
    then have "unat (t - 1) < 2 ^ 32" by simp
    then have "take_bit 32 (unat (t - 1)) = unat (t - 1)" by (rule take_bit_nat_eq_self)
    then show ?thesis by (simp add: unsigned_ucast_eq)
  qed
  ultimately show ?thesis
    by (simp add: GUNCON2_CALIBRATION_REPORT_DELAY_def word_less_nat_alt)
qed

lemma make_report_active:
  assumes "calibration_timer us \<noteq> 0"
  shows "position (snd (make_report us pos))
           = (if 5 \<le> unat (calibration_timer us) - 1 then frozen_position us else (0, 0))"
    and "calibration (fst (make_report us pos))
           = (calibration_timer us - 1, calibration_pos_x us, calibration_pos_y us)"
  using assms timer_below_report_delay [OF assms]
  by (simp_all add: make_report_def Let_def word_gt_0 position_def frozen_position_def
        calibration_def not_less)

lemma make_report_idle:
  assumes "calibration_timer us = 0"
  shows "position (snd (make_report us pos)) = (if shoot_offscreen_active us then (0, 0) else pos)"
    and "calibration (fst (make_report us pos)) = calibration us"
  using assms by (simp_all add: make_report_def Let_def position_def)


lemma handle_data_report:
  assumes "is_report_poll (Data p)"
  shows "guncon2_handle_data us p =
     (fst (make_report (start_calibration (poll_events us p)
                          (CalculatePosition (poll_events us p) (pointer p)))
                       (CalculatePosition (poll_events us p) (pointer p))),
      [],
      Inr (snd (make_report (start_calibration (poll_events us p)
                          (CalculatePosition (poll_events us p) (pointer p)))
                       (CalculatePosition (poll_events us p) (pointer p)))))"
  using assms by (simp add: guncon2_handle_data_def Let_def split: prod.splits)

lemma start_calibration_active:
  "calibration_timer s \<noteq> 0 \<Longrightarrow> start_calibration s pos = s"
  by (simp add: start_calibration_def)

lemma start_calibration_trigger:
  "calibration_timer s = 0 \<Longrightarrow> recalibrate_active s \<Longrightarrow>
     calibration (start_calibration s pos) = (12, fst pos, snd pos)"
  by (simp add: start_calibration_def calibration_def GUNCON2_CALIBRATION_DELAY_def)

lemma start_calibration_idle:
  "calibration_timer s = 0 \<Longrightarrow> \<not> recalibrate_active s \<Longrightarrow> start_calibration s pos = s"
  by (simp add: start_calibration_def)

lemma start_calibration_buttons [simp]:
  "button_state (start_calibration s pos) = button_state s"
  by (simp add: start_calibration_def)

lemma poll_active:
  assumes p: "is_report_poll (Data p)" and t: "calibration_timer us \<noteq> 0"
  shows "\<exists>us' out. guncon2_handle_data us p = (us', [], Inr out)
           \<and> position out
               = (if 5 \<le> unat (calibration_timer us) - 1 then frozen_position us else (0, 0))
           \<and> calibration us' = (calibration_timer us - 1, calibration_pos_x us, calibration_pos_y us)"
proof -
  let ?s = "poll_events us p"
  let ?pos = "CalculatePosition ?s (pointer p)"
  have c: "calibration ?s = calibration us" by simp
  then have t': "calibration_timer ?s \<noteq> 0" using t by (simp add: calibration_def)
  have st: "start_calibration ?s ?pos = ?s" using t' by (rule start_calibration_active)
  have eq: "guncon2_handle_data us p = (fst (make_report ?s ?pos), [], Inr (snd (make_report ?s ?pos)))"
    using handle_data_report [OF p, of us] by (simp add: st)
  have "position (snd (make_report ?s ?pos))
          = (if 5 \<le> unat (calibration_timer us) - 1 then frozen_position us else (0, 0))"
    using make_report_active(1) [OF t', of ?pos] c by (simp add: calibration_def frozen_position_def)
  moreover have "calibration (fst (make_report ?s ?pos))
          = (calibration_timer us - 1, calibration_pos_x us, calibration_pos_y us)"
    using make_report_active(2) [OF t', of ?pos] c by (simp add: calibration_def)
  ultimately show ?thesis using eq by blast
qed

lemma reports_other:
  "\<not> is_poll op \<Longrightarrow> reports us (op # ops) = reports (fst (exec us op)) ops"
  by (cases op) simp_all

lemma run_Cons: "fst (run us (op # ops)) = fst (run (fst (exec us op)) ops)"
  by (simp split: prod.splits)

lemma active_run:
  assumes "\<forall>op\<in>set ops. \<not> is_restore op \<and> (is_poll op \<longrightarrow> is_report_poll op)"
      and "length (filter is_poll ops) \<le> unat (calibration_timer us)"
  shows "length (reports us ops) = length (filter is_poll ops)
     \<and> (\<forall>i < length (filter is_poll ops). \<exists>out. reports us ops ! i = Inr out
            \<and> position out = (if 5 \<le> unat (calibration_timer us) - Suc i
                               then frozen_position us else (0, 0)))
     \<and> unat (calibration_timer (fst (run us ops)))
         = unat (calibration_timer us) - length (filter is_poll ops)
     \<and> frozen_position (fst (run us ops)) = frozen_position us"
  using assms
proof (induction ops arbitrary: us)
  case Nil
  then show ?case by simp
next
  case (Cons op ops)
  have rest: "\<forall>op\<in>set ops. \<not> is_restore op \<and> (is_poll op \<longrightarrow> is_report_poll op)"
    using Cons.prems(1) by simp
  show ?case
  proof (cases "is_poll op")
    case False
    have nr: "\<not> is_restore op" using Cons.prems(1) by simp
    let ?u = "fst (exec us op)"
    have c: "calibration ?u = calibration us" using False nr by (rule calibration_exec)
    then have ct: "calibration_timer ?u = calibration_timer us"
      and cf: "frozen_position ?u = frozen_position us"
      using calibrationD by blast+
    have le: "length (filter is_poll ops) \<le> unat (calibration_timer ?u)"
      using Cons.prems(2) False by (simp add: ct)
    show ?thesis
      using Cons.IH [OF rest le, unfolded ct cf] False
      by (simp add: reports_other run_Cons del: run.simps)
  next
    case True
    then obtain p where op: "op = Data p" by (cases op) simp_all
    have rp: "is_report_poll (Data p)" using Cons.prems(1) True op by simp
    have pos: "0 < unat (calibration_timer us)" using Cons.prems(2) True by simp
    then have t: "calibration_timer us \<noteq> 0" by (auto simp: unat_eq_0)
    obtain u out where hd: "guncon2_handle_data us p = (u, [], Inr out)"
      and po: "position out
               = (if 5 \<le> unat (calibration_timer us) - 1 then frozen_position us else (0, 0))"
      and cu: "calibration u = (calibration_timer us - 1, calibration_pos_x us, calibration_pos_y us)"
      using poll_active [OF rp t] by blast
    have ut: "unat (calibration_timer u) = unat (calibration_timer us) - 1"
      using cu t by (simp add: calibration_def unat_minus_one)
    have uf: "frozen_position u = frozen_position us"
      using cu by (simp add: calibration_def frozen_position_def)
    have le: "length (filter is_poll ops) \<le> unat (calibration_timer u)"
      using Cons.prems(2) True ut by simp
    have sub: "unat (calibration_timer us) - 1 - Suc j = unat (calibration_timer us) - Suc (Suc j)" for j
      by simp
    note IH = Cons.IH [OF rest le, unfolded ut uf sub]
    have r: "reports us (op # ops) = Inr out # reports u ops"
      by (simp add: op hd)
    have ru: "fst (run us (op # ops)) = fst (run u ops)"
      by (simp add: op hd split: prod.splits)
    have len: "length (reports us (op # ops)) = length (filter is_poll (op # ops))"
      using IH True by (simp add: r)
    have idx: "\<forall>i < length (filter is_poll (op # ops)). \<exists>out. reports us (op # ops) ! i = Inr out
            \<and> position out = (if 5 \<le> unat (calibration_timer us) - Suc i
                               then frozen_position us else (0, 0))"
    proof (intro allI impI)
      fix i assume i: "i < length (filter is_poll (op # ops))"
      show "\<exists>out. reports us (op # ops) ! i = Inr out
            \<and> position out = (if 5 \<le> unat (calibration_timer us) - Suc i
                               then frozen_position us else (0, 0))"
      proof (cases i)
        case 0
        then show ?thesis using po by (simp add: r)
      next
        case (Suc j)
        then have "j < length (filter is_poll ops)" using i True by simp
        then obtain o2 where "reports u ops ! j = Inr o2"
          and "position o2 = (if 5 \<le> unat (calibration_timer us) - Suc (Suc j)
                               then frozen_position us else (0, 0))"
          using IH by blast
        then show ?thesis using Suc by (simp add: r)
      qed
    qed
    have fin: "unat (calibration_timer (fst (run us (op # ops))))
         = unat (calibration_timer us) - length (filter is_poll (op # ops))"
      using IH True by (simp add: ru del: run.simps)
    have fr: "frozen_position (fst (run us (op # ops))) = frozen_position us"
      using IH by (simp add: ru del: run.simps)
    show ?thesis using len idx fin fr by blast
  qed
qed


lemma reports_append:
  "reports us (ops1 @ ops2) = reports us ops1 @ reports (fst (run us ops1)) ops2"
proof (induction ops1 arbitrary: us)
  case Nil
  then show ?case by simp
next
  case (Cons op ops1)
  show ?case
  proof (cases "is_poll op")
    case True
    then obtain p where op: "op = Data p" by (cases op) simp_all
    obtain u m r where hd: "guncon2_handle_data us p = (u, m, r)"
      by (cases "guncon2_handle_data us p")
    show ?thesis using Cons.IH [of u] by (simp add: op hd split: prod.splits)
  next
    case False
    show ?thesis
      using Cons.IH [of "fst (exec us op)"] False
      by (simp add: reports_other run_Cons del: run.simps)
  qed
qed

lemma poll_idle:
  assumes p: "is_report_poll (Data p)" and t: "calibration_timer us = 0"
  shows "\<exists>us' out. guncon2_handle_data us p = (us', [], Inr out)
           \<and> position out
               = (if shoot_offscreen_active (poll_events us p) \<and> \<not> recalibrate_active (poll_events us p)
                  then (0, 0) else CalculatePosition (poll_events us p) (pointer p))
           \<and> calibration us'
               = (if recalibrate_active (poll_events us p)
                  then (11, CalculatePosition (poll_events us p) (pointer p))
                  else calibration us)"
proof -
  let ?s = "poll_events us p"
  let ?pos = "CalculatePosition ?s (pointer p)"
  let ?st = "start_calibration ?s ?pos"
  have c: "calibration ?s = calibration us" by simp
  then have t': "calibration_timer ?s = 0" using t by (simp add: calibration_def)
  have eq: "guncon2_handle_data us p = (fst (make_report ?st ?pos), [], Inr (snd (make_report ?st ?pos)))"
    using handle_data_report [OF p, of us] by simp
  show ?thesis
  proof (cases "recalibrate_active ?s")
    case True
    have cs: "calibration ?st = (12, fst ?pos, snd ?pos)"
      using t' True by (rule start_calibration_trigger)
    then have ts: "calibration_timer ?st = 12" and fs: "frozen_position ?st = ?pos"
      by (simp_all add: calibration_def frozen_position_def)
    have nz: "calibration_timer ?st \<noteq> 0" by (simp add: ts)
    have "position (snd (make_report ?st ?pos)) = ?pos"
      using make_report_active(1) [OF nz, of ?pos] by (simp add: ts fs)
    moreover have "calibration (fst (make_report ?st ?pos)) = (11, ?pos)"
      using make_report_active(2) [OF nz, of ?pos] cs by (simp add: calibration_def)
    ultimately show ?thesis using eq True by simp
  next
    case False
    have st: "?st = ?s" using t' False by (rule start_calibration_idle)
    have "position (snd (make_report ?s ?pos)) = (if shoot_offscreen_active ?s then (0, 0) else ?pos)"
      using make_report_idle(1) [OF t'] .
    moreover have "calibration (fst (make_report ?s ?pos)) = calibration us"
      using make_report_idle(2) [OF t', of ?pos] c by simp
    ultimately show ?thesis using eq False by (simp add: st)
  qed
qed

text \<open>
  C1. The data poll is an IN transfer to endpoint 1. When the recalibrate input is active
  on a poll that finds \<open>calibration_timer = 0\<close>, the timer is set to 12 and the position
  computed on that poll is captured as the frozen position. Counting that poll as the
  first, polls 1 to 7 report the frozen position and polls 8 to 12 report \<open>(0, 0)\<close>;
  after poll 12 the timer is 0 again and poll 13 is answered as by an idle device (the
  mapped position of that poll, or \<open>(0, 0)\<close> for an offscreen shot). Between the polls
  the host may do anything but restore a saved state: bindings (the recalibrate input
  among them), raw events, settings and control requests change neither the frozen
  position nor the timing.
\<close>

theorem calibration_sequence:
  assumes idle: "calibration_timer us = 0"
    and trig: "recalibrate_active (poll_events us p1)"
    and p1: "is_report_poll (Data p1)"
    and p13: "is_report_poll (Data p13)"
    and mid: "\<forall>op\<in>set mid. \<not> is_restore op \<and> (is_poll op \<longrightarrow> is_report_poll op)"
    and n: "length (filter is_poll mid) = 11"
  shows "let s1 = poll_events us p1;
             frozen = CalculatePosition s1 (pointer p1);
             rs = reports us (Data p1 # mid @ [Data p13]);
             s13 = poll_events (fst (run us (Data p1 # mid))) p13
         in calibration (start_calibration s1 frozen) = (12, frozen)
          \<and> length rs = 13
          \<and> (\<forall>i<7. \<exists>out. rs ! i = Inr out \<and> position out = frozen)
          \<and> (\<forall>i. 7 \<le> i \<and> i < 12 \<longrightarrow> (\<exists>out. rs ! i = Inr out \<and> position out = (0, 0)))
          \<and> calibration_timer (fst (run us (Data p1 # mid))) = 0
          \<and> (\<exists>out. rs ! 12 = Inr out
                \<and> position out = (if shoot_offscreen_active s13 \<and> \<not> recalibrate_active s13
                                   then (0, 0) else CalculatePosition s13 (pointer p13)))"
proof -
  let ?s1 = "poll_events us p1"
  let ?frozen = "CalculatePosition ?s1 (pointer p1)"
  let ?rs = "reports us (Data p1 # mid @ [Data p13])"
  have c1: "calibration ?s1 = calibration us" by simp
  then have t1: "calibration_timer ?s1 = 0" using idle by (simp add: calibration_def)
  have A: "calibration (start_calibration ?s1 ?frozen) = (12, ?frozen)"
    using start_calibration_trigger [OF t1 trig, of ?frozen] by simp
  obtain u1 out1 where hd1: "guncon2_handle_data us p1 = (u1, [], Inr out1)"
    and po1: "position out1 = ?frozen"
    and cu1: "calibration u1 = (11, ?frozen)"
    using poll_idle [OF p1 idle] trig by auto
  have tu1: "unat (calibration_timer u1) = 11" and fu1: "frozen_position u1 = ?frozen"
    using cu1 by (simp_all add: calibration_def frozen_position_def)
  have le: "length (filter is_poll mid) \<le> unat (calibration_timer u1)" by (simp add: n tu1)
  note R = active_run [OF mid le, unfolded tu1 fu1 n]
  let ?u12 = "fst (run u1 mid)"
  have run12: "fst (run us (Data p1 # mid)) = ?u12"
    by (simp add: hd1 split: prod.splits)
  have t12: "calibration_timer ?u12 = 0" using R by (simp add: unat_eq_0)
  obtain u13 out13 where hd13: "guncon2_handle_data ?u12 p13 = (u13, [], Inr out13)"
    and po13: "position out13
       = (if shoot_offscreen_active (poll_events ?u12 p13) \<and> \<not> recalibrate_active (poll_events ?u12 p13)
          then (0, 0) else CalculatePosition (poll_events ?u12 p13) (pointer p13))"
    using poll_idle [OF p13 t12] by blast
  have rs: "?rs = Inr out1 # reports u1 mid @ [Inr out13]"
    by (simp add: hd1 reports_append hd13)
  have len11: "length (reports u1 mid) = 11" using R by simp
  have B: "length ?rs = 13" unfolding rs by (simp add: len11)
  have C: "\<forall>i<7. \<exists>out. ?rs ! i = Inr out \<and> position out = ?frozen"
  proof (intro allI impI)
    fix i :: nat assume i: "i < 7"
    show "\<exists>out. ?rs ! i = Inr out \<and> position out = ?frozen"
    proof (cases i)
      case 0
      then show ?thesis unfolding rs using po1 by simp
    next
      case (Suc j)
      then have j: "j < 11" and five: "5 \<le> 11 - Suc j" using i by simp_all
      obtain o2 where "reports u1 mid ! j = Inr o2"
        and "position o2 = (if 5 \<le> 11 - Suc j then ?frozen else (0, 0))"
        using R j by blast
      then show ?thesis unfolding rs using Suc j five by (simp add: nth_append len11)
    qed
  qed
  have D: "\<forall>i. 7 \<le> i \<and> i < 12 \<longrightarrow> (\<exists>out. ?rs ! i = Inr out \<and> position out = (0, 0))"
  proof (intro allI impI)
    fix i :: nat assume i: "7 \<le> i \<and> i < 12"
    then obtain j where ij: "i = Suc j" by (cases i) simp_all
    then have j: "j < 11" and five: "\<not> 5 \<le> 11 - Suc j" using i by auto
    obtain o2 where "reports u1 mid ! j = Inr o2"
      and "position o2 = (if 5 \<le> 11 - Suc j then ?frozen else (0, 0))"
      using R j by blast
    then show "\<exists>out. ?rs ! i = Inr out \<and> position out = (0, 0)"
      unfolding rs using ij j five by (simp add: nth_append len11)
  qed
  have E: "calibration_timer (fst (run us (Data p1 # mid))) = 0"
    unfolding run12 by (rule t12)
  have F: "\<exists>out. ?rs ! 12 = Inr out
                \<and> position out
                   = (if shoot_offscreen_active (poll_events (fst (run us (Data p1 # mid))) p13)
                         \<and> \<not> recalibrate_active (poll_events (fst (run us (Data p1 # mid))) p13)
                      then (0, 0)
                      else CalculatePosition (poll_events (fst (run us (Data p1 # mid))) p13) (pointer p13))"
    unfolding run12 rs using po13 by (simp add: nth_append len11)
  show ?thesis
    unfolding Let_def using A B C D E F by blast
qed

theorem calibration_sequence_witness:
  "calibration_timer recalibrating = 0
   \<and> recalibrate_active (poll_events recalibrating (poll_at (1 / 2, 1 / 2)))
   \<and> is_report_poll (Data (poll_at (1 / 2, 1 / 2)))
   \<and> is_report_poll (Data (poll_at (1 / 8, 1 / 8)))
   \<and> length (filter is_poll eleven_polls) = 11
   \<and> length (reports recalibrating
                (Data (poll_at (1 / 2, 1 / 2)) # eleven_polls @ [Data (poll_at (1 / 8, 1 / 8))])) = 13
   \<and> (\<exists>out. reports recalibrating
                (Data (poll_at (1 / 2, 1 / 2)) # eleven_polls @ [Data (poll_at (1 / 8, 1 / 8))]) ! 0 = Inr out
              \<and> position out = (320, 120))
   \<and> (\<exists>out. reports recalibrating
                (Data (poll_at (1 / 2, 1 / 2)) # eleven_polls @ [Data (poll_at (1 / 8, 1 / 8))]) ! 6 = Inr out
              \<and> position out = (320, 120))
   \<and> (\<exists>out. reports recalibrating
                (Data (poll_at (1 / 2, 1 / 2)) # eleven_polls @ [Data (poll_at (1 / 8, 1 / 8))]) ! 7 = Inr out
              \<and> position out = (0, 0))
   \<and> (\<exists>out. reports recalibrating
                (Data (poll_at (1 / 2, 1 / 2)) # eleven_polls @ [Data (poll_at (1 / 8, 1 / 8))]) ! 11 = Inr out
              \<and> position out = (0, 0))
   \<and> calibration_timer
        (fst (run recalibrating (Data (poll_at (1 / 2, 1 / 2)) # eleven_polls))) = 0"
proof -
  have h1: "calibration_timer recalibrating = 0"
    by (simp add: recalibrating_def GunCon2State_init_def)
  have h2: "recalibrate_active (poll_events recalibrating (poll_at (1 / 2, 1 / 2)))"
    by (simp add: recalibrating_def GunCon2State_init_def poll_events_def udev_has_def
          recalibrate_active_def BID_RECALIBRATE_def)
  have h3: "is_report_poll (Data (poll_at (1 / 2, 1 / 2)))"
    and h4: "is_report_poll (Data (poll_at (1 / 8, 1 / 8)))"
    by (simp_all add: poll_at_def)
  have h5: "\<forall>op\<in>set eleven_polls. \<not> is_restore op \<and> (is_poll op \<longrightarrow> is_report_poll op)"
    by (simp add: eleven_polls_def poll_at_def)
  have h6: "length (filter is_poll eleven_polls) = 11"
    by (simp add: eleven_polls_def)
  have pos: "CalculatePosition (poll_events recalibrating (poll_at (1 / 2, 1 / 2)))
               (pointer (poll_at (1 / 2, 1 / 2))) = (320, 120)"
    by (simp add: recalibrating_def poll_events_def udev_has_def poll_at_def map_eval)
  note seq = calibration_sequence [OF h1 h2 h3 h4 h5 h6, unfolded Let_def pos]
  have lt: "(0 :: nat) < 7" "(6 :: nat) < 7" "(7 :: nat) \<le> 7 \<and> (7 :: nat) < 12"
    "(7 :: nat) \<le> 11 \<and> (11 :: nat) < 12" by simp_all
  show ?thesis
    using h1 h2 h3 h4 h6 seq lt by blast
qed

section \<open>The trigger bit of the report\<close>

lemma clear_trigger_bit: "\<not> bit (clear_trigger b) BID_TRIGGER"
  by (simp add: clear_trigger_def BID_TRIGGER_def bit_simps)

lemma make_report_trigger:
  "(calibration_timer us \<noteq> 0 \<longrightarrow> \<not> trigger_released (snd (make_report us pos)))
   \<and> (calibration_timer us = 0 \<and> shoot_offscreen_active us \<longrightarrow>
        \<not> trigger_released (snd (make_report us pos)) \<and> position (snd (make_report us pos)) = (0, 0))"
  using clear_trigger_bit
  by (simp add: make_report_def Let_def trigger_released_def position_def word_gt_0)

lemmas poll_eval =
  poll_at_def guncon2_handle_data_def poll_events_def udev_has_def map_eval
  start_calibration_def make_report_def recalibrate_active_def
  shoot_offscreen_active_def clear_trigger_def
  GUNCON2_CALIBRATION_DELAY_def GUNCON2_CALIBRATION_REPORT_DELAY_def
  BID_defs

text \<open>
  C2, as the specification states it: a report generated while the calibration override
  is active carries the trigger in the released state. It fails: with the timer at 3 and
  no button pressed the mask is \<open>0xDFFF\<close>, bit 13 cleared, which in the active-low mask
  is the pressed trigger; the same mask results from an offscreen shot, whereas the idle
  device with no button pressed reports \<open>0xFFFF\<close>.
\<close>

theorem trigger_not_released:
  "snd (snd (guncon2_handle_data calibrating (poll_at (1 / 2, 1 / 2))))
     = Inr \<lparr>buttons = 0xDFFF, pos_x = 0, pos_y = 0\<rparr>
   \<and> \<not> trigger_released \<lparr>buttons = 0xDFFF, pos_x = 0, pos_y = 0\<rparr>
   \<and> snd (snd (guncon2_handle_data shooting_offscreen (poll_at (1 / 2, 1 / 2))))
     = Inr \<lparr>buttons = 0xDFFF, pos_x = 0, pos_y = 0\<rparr>
   \<and> snd (snd (guncon2_handle_data (GunCon2State_init 0) (poll_at (1 / 2, 1 / 2))))
     = Inr \<lparr>buttons = 0xFFFF, pos_x = 320, pos_y = 120\<rparr>"
  by (simp add: calibrating_def shooting_offscreen_def poll_eval trigger_released_def) code_simp

text \<open>
  C2, amended. In every report generated while the calibration override is active (the
  timer is nonzero when the poll arrives, or the poll starts a calibration), and in every
  report generated while the shoot-offscreen input is active and no calibration is in
  progress, the trigger bit of the active-low button mask is forced to 0, the pressed
  state; in the shoot-offscreen case the reported position is \<open>(0, 0)\<close>.
\<close>

theorem trigger_forced_pressed:
  assumes "is_report_poll (Data p)"
  shows "\<exists>us' out. guncon2_handle_data us p = (us', [], Inr out)
     \<and> (calibration_timer (poll_events us p) \<noteq> 0 \<or> recalibrate_active (poll_events us p)
           \<longrightarrow> \<not> trigger_released out)
     \<and> (calibration_timer (poll_events us p) = 0 \<and> \<not> recalibrate_active (poll_events us p)
          \<and> shoot_offscreen_active (poll_events us p)
           \<longrightarrow> \<not> trigger_released out \<and> position out = (0, 0))"
proof -
  let ?s = "poll_events us p"
  let ?pos = "CalculatePosition ?s (pointer p)"
  let ?st = "start_calibration ?s ?pos"
  have eq: "guncon2_handle_data us p = (fst (make_report ?st ?pos), [], Inr (snd (make_report ?st ?pos)))"
    using handle_data_report [OF assms, of us] by simp
  have a: "calibration_timer ?s \<noteq> 0 \<or> recalibrate_active ?s \<Longrightarrow> calibration_timer ?st \<noteq> 0"
    by (auto simp: start_calibration_def GUNCON2_CALIBRATION_DELAY_def)
  have b: "calibration_timer ?s = 0 \<and> \<not> recalibrate_active ?s \<Longrightarrow> ?st = ?s"
    by (simp add: start_calibration_def)
  have "calibration_timer ?s \<noteq> 0 \<or> recalibrate_active ?s
           \<longrightarrow> \<not> trigger_released (snd (make_report ?st ?pos))"
    using a make_report_trigger [of ?st ?pos] by blast
  moreover have "calibration_timer ?s = 0 \<and> \<not> recalibrate_active ?s \<and> shoot_offscreen_active ?s
           \<longrightarrow> \<not> trigger_released (snd (make_report ?st ?pos))
               \<and> position (snd (make_report ?st ?pos)) = (0, 0)"
    using b make_report_trigger [of ?s ?pos] by auto
  ultimately show ?thesis using eq by blast
qed

theorem trigger_forced_pressed_witness:
  "is_report_poll (Data (poll_at (1 / 2, 1 / 2)))
   \<and> calibration_timer (poll_events calibrating (poll_at (1 / 2, 1 / 2))) \<noteq> 0
   \<and> calibration_timer (poll_events shooting_offscreen (poll_at (1 / 2, 1 / 2))) = 0
   \<and> \<not> recalibrate_active (poll_events shooting_offscreen (poll_at (1 / 2, 1 / 2)))
   \<and> shoot_offscreen_active (poll_events shooting_offscreen (poll_at (1 / 2, 1 / 2)))
   \<and> (\<exists>us' out. guncon2_handle_data calibrating (poll_at (1 / 2, 1 / 2)) = (us', [], Inr out)
         \<and> \<not> trigger_released out)
   \<and> (\<exists>us' out. guncon2_handle_data shooting_offscreen (poll_at (1 / 2, 1 / 2)) = (us', [], Inr out)
         \<and> \<not> trigger_released out \<and> position out = (0, 0))"
proof -
  have h: "is_report_poll (Data (poll_at (1 / 2, 1 / 2)))"
    by (simp add: poll_at_def)
  have c: "calibration_timer (poll_events calibrating (poll_at (1 / 2, 1 / 2))) \<noteq> 0"
    by (simp add: calibrating_def poll_events_def udev_has_def GunCon2State_init_def)
  have o: "calibration_timer (poll_events shooting_offscreen (poll_at (1 / 2, 1 / 2))) = 0
           \<and> \<not> recalibrate_active (poll_events shooting_offscreen (poll_at (1 / 2, 1 / 2)))
           \<and> shoot_offscreen_active (poll_events shooting_offscreen (poll_at (1 / 2, 1 / 2)))"
    by (simp add: shooting_offscreen_def poll_events_def udev_has_def GunCon2State_init_def
          recalibrate_active_def shoot_offscreen_active_def BID_defs)
  show ?thesis
    using h c o trigger_forced_pressed [OF h, of calibrating]
      trigger_forced_pressed [OF h, of shooting_offscreen]
    by blast
qed

section \<open>Save states\<close>

text \<open>
  C9. A restore applies the profile fields of the snapshot (the scales, the centre and the
  screen size: six values) to the live state only when custom configuration is off at
  restore time and the snapshot's \<open>auto_config_done\<close> flag is true; otherwise the live
  profile is kept. \<open>param_x\<close>, \<open>param_y\<close>, \<open>param_mode\<close>, the calibration fields and the
  flag itself are always restored. When the marker check fails, \<open>Freeze\<close> returns false
  and the state is the one it was given.
\<close>

theorem restore_rules:
  "(DoMarker sw \<and> IsReading sw \<longrightarrow>
      (case Freeze s sw of (ok, s', w) \<Rightarrow>
         ok = (\<not> HasError sw)
         \<and> device_params s'
              = (sn_param_x (stream sw), sn_param_y (stream sw), sn_param_mode (stream sw))
         \<and> calibration s'
              = (sn_calibration_timer (stream sw), sn_calibration_pos_x (stream sw),
                 sn_calibration_pos_y (stream sw))
         \<and> auto_config_done s' = sn_auto_config_done (stream sw)
         \<and> profile s'
              = (if \<not> custom_config s \<and> sn_auto_config_done (stream sw)
                 then (sn_scale_x (stream sw), sn_scale_y (stream sw),
                       sn_center_x (stream sw), sn_center_y (stream sw),
                       sn_screen_width (stream sw), sn_screen_height (stream sw))
                 else profile s)))
   \<and> (\<not> DoMarker sw \<longrightarrow> Freeze s sw = (False, s, None))"
  by (simp add: Freeze_def Let_def device_params_def profile_def calibration_def)

theorem restore_rules_witness:
  "DoMarker (reader True snapshot_auto) \<and> IsReading (reader True snapshot_auto)
   \<and> profile (fst (snd (Freeze (GunCon2State_init 0) (reader True snapshot_auto))))
       = (7 / 8, 15 / 16, 320, 134, 640, 240)
   \<and> profile (fst (snd (Freeze ((GunCon2State_init 0)\<lparr>custom_config := True\<rparr>)
                               (reader True snapshot_auto))))
       = (1, 1, 320, 120, 640, 240)
   \<and> device_params (fst (snd (Freeze ((GunCon2State_init 0)\<lparr>custom_config := True\<rparr>)
                               (reader True snapshot_auto))))
       = (5, 6, 0x0100)
   \<and> \<not> DoMarker (reader False snapshot_auto)
   \<and> Freeze (GunCon2State_init 0) (reader False snapshot_auto)
       = (False, GunCon2State_init 0, None)"
  using restore_rules [of "reader True snapshot_auto" "GunCon2State_init 0"]
        restore_rules [of "reader True snapshot_auto" "(GunCon2State_init 0)\<lparr>custom_config := True\<rparr>"]
        restore_rules [of "reader False snapshot_auto" "GunCon2State_init 0"]
  by (simp add: reader_def snapshot_auto_def GunCon2State_init_def profile_def device_params_def
        split: prod.splits)

lemma restore_roundtrip:
  "\<not> custom_config live \<Longrightarrow> auto_config_done saved \<Longrightarrow>
   profile (fst (snd (Freeze live (reader True (capture saved))))) = profile saved"
  by (simp add: Freeze_def reader_def capture_def profile_def Let_def)

lemma restore_custom_keeps_live:
  "custom_config live \<Longrightarrow>
   profile (fst (snd (Freeze live (reader True (capture saved))))) = profile live"
  by (simp add: Freeze_def reader_def capture_def profile_def Let_def)

section \<open>The control transfer\<close>






section \<open>Profile selection\<close>

lemma scan_find_Some:
  "find (\<lambda>gc. gc_serial gc = serial) tab = Some gc \<Longrightarrow>
   AutoConfigure_scan tab serial us =
     (us\<lparr>active_game := serial,
         scale_x := fdiv (gc_scale_x gc) 100, scale_y := fdiv (gc_scale_y gc) 100,
         center_x := f32 (real (unat (gc_center_x gc))),
         center_y := f32 (real (unat (gc_center_y gc))),
         screen_width := gc_screen_width gc, screen_height := gc_screen_height gc\<rparr>,
      [UsingAutomaticConfig serial])"
  by (induction tab) (auto split: if_splits)

lemma scan_find_None:
  "find (\<lambda>gc. gc_serial gc = serial) tab = None \<Longrightarrow>
   AutoConfigure_scan tab serial us = (us, [NoAutomaticConfigFound serial])"
  by (induction tab) (auto split: if_splits)

lemma find_distinct:
  "distinct (map f xs) \<Longrightarrow> x \<in> set xs \<Longrightarrow> find (\<lambda>y. f y = f x) xs = Some x"
  by (induction xs) auto

lemma serials_distinct: "distinct (map gc_serial s_game_config)"
  by (simp add: s_game_config_def mk_gc_def)

lemma find_None_absent:
  "(find (\<lambda>gc. gc_serial gc = serial) tab = None) = (serial \<notin> gc_serial ` set tab)"
  by (auto simp: find_None_iff)

text \<open>
  C8. \<open>AutoConfigure\<close> scans the table in order and stops at the first entry whose serial
  equals the current title identifier. The serials of the table are distinct, so a title
  of the table yields exactly the values of its entry: the scales are the percentages
  divided by 100 (a \<^verbatim>\<open>float\<close> division), with its centre and its screen size. A title that is not in the table
  leaves the state as it is, which for a freshly constructed device is the default
  profile (scale 100/100, centre 320/120, screen 640 by 240), and a notice is printed.
\<close>

theorem profile_selection:
  "(find (\<lambda>gc. gc_serial gc = serial) s_game_config = Some gc \<longrightarrow>
      AutoConfigure us serial =
        (us\<lparr>active_game := serial,
            scale_x := fdiv (gc_scale_x gc) 100, scale_y := fdiv (gc_scale_y gc) 100,
            center_x := f32 (real (unat (gc_center_x gc))),
            center_y := f32 (real (unat (gc_center_y gc))),
            screen_width := gc_screen_width gc, screen_height := gc_screen_height gc\<rparr>,
         [UsingAutomaticConfig serial]))
   \<and> (gc \<in> set s_game_config \<longrightarrow>
        profile (fst (AutoConfigure us (gc_serial gc)))
          = (fdiv (gc_scale_x gc) 100, fdiv (gc_scale_y gc) 100,
             f32 (real (unat (gc_center_x gc))), f32 (real (unat (gc_center_y gc))),
             gc_screen_width gc, gc_screen_height gc))
   \<and> (serial \<notin> gc_serial ` set s_game_config \<longrightarrow>
        AutoConfigure us serial = (us, [NoAutomaticConfigFound serial])
        \<and> profile (fst (AutoConfigure (GunCon2State_init p) serial))
            = (DEFAULT_SCALE_X / 100, DEFAULT_SCALE_Y / 100, DEFAULT_CENTER_X, DEFAULT_CENTER_Y,
               word_of_int DEFAULT_SCREEN_WIDTH, word_of_int DEFAULT_SCREEN_HEIGHT))"
proof (intro conjI impI)
  assume "find (\<lambda>gc. gc_serial gc = serial) s_game_config = Some gc"
  then show "AutoConfigure us serial =
        (us\<lparr>active_game := serial,
            scale_x := fdiv (gc_scale_x gc) 100, scale_y := fdiv (gc_scale_y gc) 100,
            center_x := f32 (real (unat (gc_center_x gc))),
            center_y := f32 (real (unat (gc_center_y gc))),
            screen_width := gc_screen_width gc, screen_height := gc_screen_height gc\<rparr>,
         [UsingAutomaticConfig serial])"
    unfolding AutoConfigure_def by (rule scan_find_Some)
next
  assume "gc \<in> set s_game_config"
  then have "find (\<lambda>y. gc_serial y = gc_serial gc) s_game_config = Some gc"
    using serials_distinct by (rule find_distinct [rotated])
  then show "profile (fst (AutoConfigure us (gc_serial gc)))
          = (fdiv (gc_scale_x gc) 100, fdiv (gc_scale_y gc) 100,
             f32 (real (unat (gc_center_x gc))), f32 (real (unat (gc_center_y gc))),
             gc_screen_width gc, gc_screen_height gc)"
    unfolding AutoConfigure_def by (simp add: scan_find_Some profile_def)
next
  assume a: "serial \<notin> gc_serial ` set s_game_config"
  then have n: "find (\<lambda>gc. gc_serial gc = serial) s_game_config = None"
    using find_None_absent [of serial s_game_config] by blast
  show "AutoConfigure us serial = (us, [NoAutomaticConfigFound serial])"
    unfolding AutoConfigure_def using n by (rule scan_find_None)
  show "profile (fst (AutoConfigure (GunCon2State_init p) serial))
            = (DEFAULT_SCALE_X / 100, DEFAULT_SCALE_Y / 100, DEFAULT_CENTER_X, DEFAULT_CENTER_Y,
               word_of_int DEFAULT_SCREEN_WIDTH, word_of_int DEFAULT_SCREEN_HEIGHT)"
    unfolding AutoConfigure_def scan_find_None [OF n]
    by (simp add: profile_def GunCon2State_init_def DEFAULT_SCALE_X_def DEFAULT_SCALE_Y_def
          DEFAULT_CENTER_X_def DEFAULT_CENTER_Y_def DEFAULT_SCREEN_WIDTH_def
          DEFAULT_SCREEN_HEIGHT_def)
qed

theorem profile_selection_witness:
  "find (\<lambda>gc. gc_serial gc = ''SLUS-20927'') s_game_config = Some crisis_zone
   \<and> crisis_zone \<in> set s_game_config
   \<and> profile (fst (AutoConfigure (GunCon2State_init 0) ''SLUS-20927''))
       = (f32 (361 / 400), f32 (99 / 100), 390, 153, 640, 240)
   \<and> snd (AutoConfigure (GunCon2State_init 0) ''SLUS-20927'') = [UsingAutomaticConfig ''SLUS-20927'']
   \<and> ''SLUS-00000'' \<notin> gc_serial ` set s_game_config
   \<and> AutoConfigure (GunCon2State_init 0) ''SLUS-00000''
       = (GunCon2State_init 0, [NoAutomaticConfigFound ''SLUS-00000''])
   \<and> profile (GunCon2State_init 0) = (1, 1, 320, 120, 640, 240)"
proof -
  have f: "find (\<lambda>gc. gc_serial gc = ''SLUS-20927'') s_game_config = Some crisis_zone"
    by (simp add: s_game_config_def mk_gc_def crisis_zone_def)
  have m: "crisis_zone \<in> set s_game_config"
    by (simp add: s_game_config_def crisis_zone_def)
  have a: "''SLUS-00000'' \<notin> gc_serial ` set s_game_config"
    by (simp add: s_game_config_def mk_gc_def)
  have s: "gc_serial crisis_zone = ''SLUS-20927''"
    by (simp add: crisis_zone_def mk_gc_def)
  note P = profile_selection [where serial = "''SLUS-20927''" and gc = crisis_zone
                                and us = "GunCon2State_init 0"]
  note Q = profile_selection [where serial = "''SLUS-00000''" and us = "GunCon2State_init 0"
                                and p = 0]
  have 1: "profile (fst (AutoConfigure (GunCon2State_init 0) ''SLUS-20927''))
       = (f32 (361 / 400), f32 (99 / 100), 390, 153, 640, 240)"
    using P m by (simp add: s crisis_zone_def mk_gc_def float_eval)
  have 2: "snd (AutoConfigure (GunCon2State_init 0) ''SLUS-20927'') = [UsingAutomaticConfig ''SLUS-20927'']"
    using P f by simp
  have 3: "AutoConfigure (GunCon2State_init 0) ''SLUS-00000''
       = (GunCon2State_init 0, [NoAutomaticConfigFound ''SLUS-00000''])"
    using Q a by blast
  have 4: "profile (GunCon2State_init 0) = (1, 1, 320, 120, 640, 240)"
    by (simp add: profile_def GunCon2State_init_def)
  show ?thesis using f m a 1 2 3 4 by blast
qed

section \<open>The coordinate mapper\<close>

text \<open>
  C3. The specification has the mapper return \<open>(0, 0)\<close> exactly for the samples with a
  negative coordinate, every onscreen sample having both axes of magnitude at least 1.
  The code clamps the 32-bit value of an axis to at least 1 and then narrows it to 16
  bits, with no upper bound before the narrowing. With the centre at 32768 and the
  title's offset at \<open>-32768\<close> on both axes, the onscreen sample \<open>(1/2, 1/2)\<close> gives 65536 on
  both axes, which narrows to \<open>(0, 0)\<close>. With the default profile and \<open>param_x = -32768\<close>
  the same sample gives 33088 on the X axis, which narrows to \<open>-32448\<close>.
\<close>

theorem onscreen_sample_maps_to_sentinel:
  "CalculatePosition wrapping (1 / 2, 1 / 2) = (0, 0)
   \<and> splitscreen_adjust wrapping (1 / 2, 1 / 2) = (1 / 2, 1 / 2)
   \<and> sint (param_x wrapping) = - 32768 \<and> sint (param_y wrapping) = - 32768
   \<and> sint (fst (CalculatePosition ((GunCon2State_init 0)\<lparr>param_x := 0x8000\<rparr>) (1 / 2, 1 / 2)))
       = - 32448"
  by (simp add: wrapping_def map_eval)

text \<open>What holds of the sentinel: a negative coordinate gives \<open>(0, 0)\<close>, a value below 1
  is clamped to 1, and an axis whose value fits 16 bits is at least 1.\<close>

lemma map_position_offscreen:
  "fst p < 0 \<or> snd p < 0 \<Longrightarrow> map_position us p = (0, 0)"
  by (auto simp add: map_position_def Let_def)

lemma clamp_narrow_below: "sint x < 1 \<Longrightarrow> clamp_narrow x = 1"
  by (simp add: clamp_narrow_def)


lemma clamp_narrow_positive:
  assumes "sint x \<le> 32767"
  shows "1 \<le> sint (clamp_narrow x)"
proof (cases "sint x < 1")
  case True
  then show ?thesis by (simp add: clamp_narrow_def)
next
  case False
  have "(ucast x :: s16) = scast x"
    by (rule bit_eqI) (auto simp add: bit_simps)
  also have "\<dots> = word_of_int (sint x)" by (rule scast_eq)
  finally have "sint (ucast x :: s16) = signed_take_bit 15 (sint x)"
    by (simp only: sint_sbintrunc') simp
  also have "\<dots> = sint x"
    using False assms by (intro signed_take_bit_int_eq_self) simp_all
  finally have "sint (ucast x :: s16) = sint x" .
  then show ?thesis using False by (simp add: clamp_narrow_def)
qed

subsection \<open>The mapping algorithm\<close>












subsection \<open>Determinism\<close>

text \<open>
  C5, as the specification states it: identical pointer sample, profile and device
  parameters give identical positions. It fails: the split-screen adjustment inside
  \<open>CalculatePosition\<close> also reads \<open>active_game\<close>, \<open>splitscreen_activated\<close> and \<open>port\<close>. Two
  states with the same profile and parameters map the sample \<open>(1/2, 1/2)\<close> to
  \<open>(320, 120)\<close> and to \<open>(300, 119)\<close>.
\<close>

theorem split_screen_changes_mapping:
  "profile split_screen = profile (GunCon2State_init 0)
   \<and> device_params split_screen = device_params (GunCon2State_init 0)
   \<and> CalculatePosition (GunCon2State_init 0) (1 / 2, 1 / 2) = (320, 120)
   \<and> CalculatePosition split_screen (1 / 2, 1 / 2) = (300, 119)"
  by (simp add: split_screen_def profile_def device_params_def map_eval)

text \<open>
  C5, amended. Two invocations of \<open>CalculatePosition\<close> with identical pointer sample,
  identical profile fields, identical device parameters and identical split-screen
  context (\<open>active_game\<close>, \<open>splitscreen_activated\<close>, \<open>port\<close>) return identical positions,
  whatever the rest of the state is, the calibration fields included. The function
  assigns to no member of the device state, so the embedding returns the position only.
\<close>

theorem mapper_deterministic:
  assumes "profile a = profile b"
    and "device_params a = device_params b"
    and "split_context a = split_context b"
  shows "CalculatePosition a sample = CalculatePosition b sample"
proof -
  have "splitscreen_adjust a sample = splitscreen_adjust b sample"
    using assms(3) by (simp add: splitscreen_adjust_def split_context_def)
  moreover have "map_position a p = map_position b p" for p
    using assms(1,2) by (simp add: map_position_def profile_def device_params_def Let_def)
  ultimately show ?thesis by (simp add: CalculatePosition_def)
qed

theorem mapper_deterministic_witness:
  "profile calibrating = profile shooting_offscreen
   \<and> device_params calibrating = device_params shooting_offscreen
   \<and> split_context calibrating = split_context shooting_offscreen
   \<and> calibrating \<noteq> shooting_offscreen
   \<and> CalculatePosition calibrating (1 / 4, 3 / 4) = CalculatePosition shooting_offscreen (1 / 4, 3 / 4)"
proof -
  have a: "profile calibrating = profile shooting_offscreen"
    and b: "device_params calibrating = device_params shooting_offscreen"
    and c: "split_context calibrating = split_context shooting_offscreen"
    by (simp_all add: calibrating_def shooting_offscreen_def GunCon2State_init_def profile_def
          device_params_def split_context_def)
  have d: "calibration_timer calibrating \<noteq> calibration_timer shooting_offscreen"
    by (simp add: calibrating_def shooting_offscreen_def GunCon2State_init_def)
  then have e: "calibrating \<noteq> shooting_offscreen" by auto
  show ?thesis using a b c e mapper_deterministic [OF a b c] by blast
qed

section \<open>The lifetime of profile selection\<close>

lemma configuration_update [simp]:
  "configuration (port_update f0 us) = configuration us"
  "configuration (has_relative_binds_update f1 us) = configuration us"
  "configuration (split_screen_hack_update f2 us) = configuration us"
  "configuration (split_screen_full_stretch_update f3 us) = configuration us"
  "configuration (calibrated_update f4 us) = configuration us"
  "configuration (button_state_update f5 us) = configuration us"
  "configuration (relative_pos_update f6 us) = configuration us"
  "configuration (param_x_update f7 us) = configuration us"
  "configuration (param_y_update f8 us) = configuration us"
  "configuration (param_mode_update f9 us) = configuration us"
  "configuration (calibration_timer_update f10 us) = configuration us"
  "configuration (calibration_pos_x_update f11 us) = configuration us"
  "configuration (calibration_pos_y_update f12 us) = configuration us"
  "configuration (active_game_update f13 us) = configuration us"
  "configuration (splitscreen_activated_update f14 us) = configuration us"
  "configuration (udev_fd_update f15 us) = configuration us"
  by (simp_all add: configuration_def profile_def)

lemma selections_append [simp]: "selections (a @ b) = selections a + selections b"
  by (simp add: selections_def)

lemma selections_Nil [simp]: "selections [] = 0"
  by (simp add: selections_def)

lemma selections_scan [simp]: "selections (snd (AutoConfigure_scan tab serial us)) = 1"
  by (induction tab) (simp_all add: selections_def)

lemma first_control_config_selections:
  "selections (snd (first_control_config us serial))
     = (if \<not> auto_config_done us \<and> \<not> custom_config us then 1 else 0)"
proof -
  have "selections (snd (AutoConfigure us serial)) = 1" by (simp add: AutoConfigure_def)
  then show ?thesis
    by (cases "AutoConfigure us serial") (simp add: first_control_config_def)
qed

lemma first_control_config_done:
  "\<not> custom_config us \<Longrightarrow> auto_config_done (fst (first_control_config us serial))"
  by (cases "AutoConfigure us serial") (simp add: first_control_config_def)

lemma first_control_config_idle:
  "auto_config_done us \<or> custom_config us \<Longrightarrow> first_control_config us serial = (us, [])"
  by (auto simp add: first_control_config_def)

lemma custom_config_scan [simp]:
  "custom_config (fst (AutoConfigure_scan tab serial us)) = custom_config us"
  by (induction tab) simp_all

lemma handle_control_parts:
  "fst (snd (guncon2_handle_control us c)) = snd (first_control_config us (disc_serial c))
   \<and> auto_config_done (fst (guncon2_handle_control us c))
       = auto_config_done (fst (first_control_config us (disc_serial c)))
   \<and> custom_config (fst (guncon2_handle_control us c))
       = custom_config (fst (first_control_config us (disc_serial c)))
   \<and> profile (fst (guncon2_handle_control us c))
       = profile (fst (first_control_config us (disc_serial c)))"
  by (cases "first_control_config us (disc_serial c)")
     (simp add: guncon2_handle_control_def profile_def)

lemma configuration_updateState [simp]: "configuration (updateState us b v) = configuration us"
  by (simp add: updateState_def Let_def)

lemma configuration_udev_handle_event [simp]:
  "configuration (udev_handle_event us e) = configuration us"
  by (simp add: udev_handle_event_def Let_def)

lemma configuration_udev_poll_gun [simp]: "configuration (udev_poll_gun us es) = configuration us"
  by (induction es arbitrary: us) simp_all

lemma configuration_poll_events [simp]: "configuration (poll_events us p) = configuration us"
  by (simp add: poll_events_def)

lemma configuration_start_calibration [simp]:
  "configuration (start_calibration us pos) = configuration us"
  by (simp add: start_calibration_def)

lemma configuration_make_report [simp]:
  "configuration (fst (make_report us pos)) = configuration us"
  by (simp add: make_report_def Let_def)

lemma configuration_handle_data [simp]:
  "configuration (fst (guncon2_handle_data us p)) = configuration us"
proof (cases "pid p = USB_TOKEN_IN \<and> ep_nr p = 1")
  case True
  let ?s = "poll_events us p"
  let ?pos = "CalculatePosition ?s (pointer p)"
  obtain u out where mr: "make_report (start_calibration ?s ?pos) ?pos = (u, out)"
    by (cases "make_report (start_calibration ?s ?pos) ?pos")
  have "configuration u = configuration (start_calibration ?s ?pos)"
    using configuration_make_report [of "start_calibration ?s ?pos" ?pos] by (simp add: mr)
  then have "configuration u = configuration us" by simp
  then show ?thesis using True by (simp add: guncon2_handle_data_def Let_def mr)
next
  case False
  then show ?thesis by (auto simp add: guncon2_handle_data_def Let_def)
qed

lemma selections_handle_data [simp]:
  "selections (fst (snd (guncon2_handle_data us p))) = 0"
  by (simp add: guncon2_handle_data_def Let_def selections_def split: prod.splits)

lemma configuration_binding [simp]: "configuration (SetBindingValue us i v) = configuration us"
  by (simp add: SetBindingValue_def Let_def)

lemma configurationD:
  "configuration a = configuration b \<Longrightarrow>
     auto_config_done a = auto_config_done b \<and> custom_config a = custom_config b
     \<and> profile a = profile b"
  by (simp add: configuration_def)

text \<open>Every operation but a control request leaves the console free of selections.\<close>

lemma exec_selections:
  "selections (snd (exec us op))
     = (case op of Control c \<Rightarrow> (if \<not> auto_config_done us \<and> \<not> custom_config us then 1 else 0)
        | _ \<Rightarrow> 0)"
proof (cases op)
  case (Control c)
  obtain u m r where eq: "guncon2_handle_control us c = (u, m, r)"
    by (cases "guncon2_handle_control us c")
  have "m = snd (first_control_config us (disc_serial c))"
    using handle_control_parts [of us c] by (simp add: eq)
  then show ?thesis
    using Control by (simp add: eq first_control_config_selections)
next
  case (Data p)
  obtain u m r where eq: "guncon2_handle_data us p = (u, m, r)"
    by (cases "guncon2_handle_data us p")
  have "selections m = 0" using selections_handle_data [of us p] by (simp add: eq)
  then show ?thesis using Data by (simp add: eq)
next
  case (SaveLoad sw)
  obtain ok u w where eq: "Freeze us sw = (ok, u, w)" by (cases "Freeze us sw")
  show ?thesis using SaveLoad by (simp add: eq)
qed simp_all

text \<open>Without a restore, the flag stays set once it is set.\<close>

lemma exec_keeps_done:
  assumes "auto_config_done us" and "\<not> is_restore op"
  shows "auto_config_done (fst (exec us op))"
proof (cases op)
  case (Control c)
  obtain u m r where eq: "guncon2_handle_control us c = (u, m, r)"
    by (cases "guncon2_handle_control us c")
  have "auto_config_done u = auto_config_done (fst (first_control_config us (disc_serial c)))"
    using handle_control_parts [of us c] by (simp add: eq)
  then show ?thesis
    using Control assms(1) by (simp add: eq first_control_config_idle)
next
  case (Data p)
  obtain u m r where eq: "guncon2_handle_data us p = (u, m, r)"
    by (cases "guncon2_handle_data us p")
  have "configuration u = configuration us" using configuration_handle_data [of us p] by (simp add: eq)
  then have "auto_config_done u = auto_config_done us" by (simp add: configuration_def)
  then show ?thesis using Data assms(1) by (simp add: eq)
next
  case (Settings si)
  then show ?thesis using assms(1) by (simp add: UpdateSettings_def Let_def)
next
  case (Binding i v)
  have "configuration (SetBindingValue us i v) = configuration us" by simp
  then have "auto_config_done (SetBindingValue us i v) = auto_config_done us"
    by (simp add: configuration_def)
  then show ?thesis using Binding assms(1) by simp
next
  case (SaveLoad sw)
  then show ?thesis using assms by (simp add: Freeze_def)
next
  case (Background g sp)
  then show ?thesis using assms(1) by simp
qed

lemma exec_selection_sets_done:
  assumes "selections (snd (exec us op)) \<noteq> 0"
  shows "auto_config_done (fst (exec us op))"
proof -
  have "\<exists>c. op = Control c \<and> \<not> custom_config us"
    using assms unfolding exec_selections by (cases op) (simp_all split: if_splits)
  then obtain c where op: "op = Control c" and nc: "\<not> custom_config us" by blast
  obtain u m r where eq: "guncon2_handle_control us c = (u, m, r)"
    by (cases "guncon2_handle_control us c")
  have "auto_config_done u = auto_config_done (fst (first_control_config us (disc_serial c)))"
    using handle_control_parts [of us c] by (simp add: eq)
  then show ?thesis
    using op first_control_config_done [OF nc] by (simp add: eq)
qed

lemma run_done_quiet:
  assumes "auto_config_done us" and "\<forall>op\<in>set ops. \<not> is_restore op"
  shows "selections (snd (run us ops)) = 0"
  using assms
proof (induction ops arbitrary: us)
  case Nil
  then show ?case by simp
next
  case (Cons op ops)
  obtain u m where eq: "exec us op = (u, m)" by (cases "exec us op")
  obtain u2 m2 where eq2: "run u ops = (u2, m2)" by (cases "run u ops")
  have nr: "\<not> is_restore op" using Cons.prems(2) by simp
  have d: "auto_config_done u" using exec_keeps_done [OF Cons.prems(1) nr] by (simp add: eq)
  have "selections m = 0"
    using exec_selections [of us op] Cons.prems(1) by (simp add: eq split: operation.splits)
  moreover have "selections m2 = 0"
    using Cons.IH [OF d] Cons.prems(2) by (simp add: eq2)
  ultimately show ?case by (simp add: eq eq2)
qed

lemma run_at_most_once:
  assumes "\<forall>op\<in>set ops. \<not> is_restore op"
  shows "selections (snd (run us ops)) \<le> 1"
  using assms
proof (induction ops arbitrary: us)
  case Nil
  then show ?case by simp
next
  case (Cons op ops)
  obtain u m where eq: "exec us op = (u, m)" by (cases "exec us op")
  obtain u2 m2 where eq2: "run u ops = (u2, m2)" by (cases "run u ops")
  have rest: "\<forall>op\<in>set ops. \<not> is_restore op" using Cons.prems by simp
  have le1: "selections m \<le> 1"
    using exec_selections [of us op] by (simp add: eq split: operation.splits)
  show ?case
  proof (cases "selections m = 0")
    case True
    then show ?thesis using Cons.IH [OF rest, of u] by (simp add: eq eq2)
  next
    case False
    then have "auto_config_done u" using exec_selection_sets_done [of us op] by (simp add: eq)
    then have "selections m2 = 0" using run_done_quiet [OF _ rest, of u] by (simp add: eq2)
    then show ?thesis using le1 by (simp add: eq eq2)
  qed
qed


lemma exec_custom_keeps_profile:
  assumes "custom_config us" and "\<forall>si. op \<noteq> Settings si"
  shows "profile (fst (exec us op)) = profile us \<and> custom_config (fst (exec us op))"
proof (cases op)
  case (Control c)
  obtain u m r where eq: "guncon2_handle_control us c = (u, m, r)"
    by (cases "guncon2_handle_control us c")
  have f: "first_control_config us (disc_serial c) = (us, [])"
    using assms(1) by (simp add: first_control_config_idle)
  have "profile u = profile us \<and> custom_config u = custom_config us"
    using handle_control_parts [of us c] by (simp add: eq f)
  then show ?thesis using Control assms(1) by (simp add: eq)
next
  case (Data p)
  obtain u m r where eq: "guncon2_handle_data us p = (u, m, r)"
    by (cases "guncon2_handle_data us p")
  have "configuration u = configuration us" using configuration_handle_data [of us p] by (simp add: eq)
  then have "profile u = profile us \<and> custom_config u = custom_config us"
    by (simp add: configuration_def)
  then show ?thesis using Data assms(1) by (simp add: eq)
next
  case (Settings si)
  then show ?thesis using assms(2) by simp
next
  case (Binding i v)
  have "configuration (SetBindingValue us i v) = configuration us" by simp
  then have "profile (SetBindingValue us i v) = profile us
             \<and> custom_config (SetBindingValue us i v) = custom_config us"
    by (simp add: configuration_def)
  then show ?thesis using Binding assms(1) by simp
next
  case (SaveLoad sw)
  then show ?thesis using assms(1) by (simp add: Freeze_def Let_def profile_def)
next
  case (Background g sp)
  then show ?thesis using assms(1) by (simp add: profile_def)
qed

lemma UpdateSettings_custom:
  "si_custom_config si \<Longrightarrow>
   profile (UpdateSettings us si)
     = (fdiv (si_scale_x si) 100, fdiv (si_scale_y si) 100, si_center_x si, si_center_y si,
        si_screen_width si, si_screen_height si)"
  by (simp add: UpdateSettings_def Let_def profile_def)

text \<open>
  C7, as the specification states it: profile selection runs at most once per device
  instance. It fails: a restore overwrites \<open>auto_config_done\<close> with the flag of the
  snapshot, and a snapshot taken before the first control request carries it unset. A
  control request, the restore of such a snapshot and another control request select
  the profile twice.
\<close>

theorem restore_rearms_selection:
  "selections (snd (run (GunCon2State_init 0)
      [Control stall_request,
       SaveLoad (reader True (capture (GunCon2State_init 0))),
       Control stall_request])) = 2"
  by (simp add: selections_def guncon2_handle_control_def first_control_config_def
        AutoConfigure_def s_game_config_def mk_gc_def stall_request_def GunCon2State_init_def
        Freeze_def reader_def capture_def Let_def split: prod.splits)

text \<open>
  C7, amended. Profile selection runs only on a control request that arrives while
  \<open>auto_config_done\<close> is false and custom configuration is off, and the flag is set by
  that request; so it runs at most once in any sequence of operations that restores no
  saved state. Under custom configuration no operation selects a profile and none but
  \<open>UpdateSettings\<close> changes the profile, and \<open>UpdateSettings\<close> with custom configuration
  requested installs the values of the settings.
\<close>

theorem auto_selection_lifetime:
  "selections (snd (exec us op))
     = (case op of Control c \<Rightarrow> (if \<not> auto_config_done us \<and> \<not> custom_config us then 1 else 0)
        | _ \<Rightarrow> 0)
   \<and> (\<not> custom_config us \<longrightarrow> auto_config_done (fst (exec us (Control c))))
   \<and> ((\<forall>op\<in>set ops. \<not> is_restore op) \<longrightarrow> selections (snd (run us ops)) \<le> 1)
   \<and> (custom_config us \<longrightarrow>
        selections (snd (exec us op)) = 0
        \<and> ((\<forall>si. op \<noteq> Settings si) \<longrightarrow>
             profile (fst (exec us op)) = profile us \<and> custom_config (fst (exec us op))))
   \<and> (si_custom_config si \<longrightarrow>
        profile (UpdateSettings us si)
          = (fdiv (si_scale_x si) 100, fdiv (si_scale_y si) 100, si_center_x si, si_center_y si,
             si_screen_width si, si_screen_height si))"
proof (intro conjI impI)
  show "selections (snd (exec us op))
     = (case op of Control c \<Rightarrow> (if \<not> auto_config_done us \<and> \<not> custom_config us then 1 else 0)
        | _ \<Rightarrow> 0)"
    by (rule exec_selections)
next
  assume nc: "\<not> custom_config us"
  obtain u m r where eq: "guncon2_handle_control us c = (u, m, r)"
    by (cases "guncon2_handle_control us c")
  have "auto_config_done u = auto_config_done (fst (first_control_config us (disc_serial c)))"
    using handle_control_parts [of us c] by (simp add: eq)
  then show "auto_config_done (fst (exec us (Control c)))"
    using first_control_config_done [OF nc] by (simp add: eq)
next
  assume "\<forall>op\<in>set ops. \<not> is_restore op"
  then show "selections (snd (run us ops)) \<le> 1" by (rule run_at_most_once)
next
  assume "custom_config us"
  then show "selections (snd (exec us op)) = 0"
    unfolding exec_selections by (simp split: operation.splits)
next
  assume "custom_config us" and "\<forall>si. op \<noteq> Settings si"
  then show "profile (fst (exec us op)) = profile us"
    and "custom_config (fst (exec us op))"
    using exec_custom_keeps_profile by blast+
next
  assume "si_custom_config si"
  then show "profile (UpdateSettings us si)
          = (fdiv (si_scale_x si) 100, fdiv (si_scale_y si) 100, si_center_x si, si_center_y si,
             si_screen_width si, si_screen_height si)"
    by (rule UpdateSettings_custom)
qed

theorem auto_selection_lifetime_witness:
  "\<not> custom_config (GunCon2State_init 0)
   \<and> auto_config_done (fst (exec (GunCon2State_init 0) (Control stall_request)))
   \<and> length (filter is_restore session) = 0
   \<and> selections (snd (run (GunCon2State_init 0) session)) \<le> 1
   \<and> custom_config manual
   \<and> (\<forall>si. Control stall_request \<noteq> Settings si)
   \<and> selections (snd (exec manual (Control stall_request))) = 0
   \<and> profile (fst (exec manual (Control stall_request))) = profile manual
   \<and> si_custom_config manual_settings
   \<and> profile (UpdateSettings (GunCon2State_init 0) manual_settings)
       = (1 / 2, 2, 300, 130, 512, 256)"
proof -
  have a: "\<not> custom_config (GunCon2State_init 0)"
    by (simp add: GunCon2State_init_def)
  have b: "\<forall>op\<in>set session. \<not> is_restore op"
    by (simp add: session_def)
  have c: "custom_config manual"
    by (simp add: manual_def UpdateSettings_def manual_settings_def Let_def)
  have d: "\<forall>si. Control stall_request \<noteq> Settings si" by simp
  have e: "si_custom_config manual_settings"
    by (simp add: manual_settings_def)
  note T1 = auto_selection_lifetime [where us = "GunCon2State_init 0" and c = stall_request
              and ops = session and si = manual_settings and op = "Control stall_request"]
  note T2 = auto_selection_lifetime [where us = manual and op = "Control stall_request"
              and c = stall_request and ops = session and si = manual_settings]
  have 1: "auto_config_done (fst (exec (GunCon2State_init 0) (Control stall_request)))"
    using T1 a by blast
  have 2: "selections (snd (run (GunCon2State_init 0) session)) \<le> 1"
    using T1 b by blast
  have 3: "selections (snd (exec manual (Control stall_request))) = 0"
    and 4: "profile (fst (exec manual (Control stall_request))) = profile manual"
    using T2 c d by blast+
  have "profile (UpdateSettings (GunCon2State_init 0) manual_settings)
          = (fdiv (si_scale_x manual_settings) 100, fdiv (si_scale_y manual_settings) 100,
             si_center_x manual_settings, si_center_y manual_settings,
             si_screen_width manual_settings, si_screen_height manual_settings)"
    using T1 e by blast
  then have 5: "profile (UpdateSettings (GunCon2State_init 0) manual_settings)
       = (1 / 2, 2, 300, 130, 512, 256)"
    by (simp add: manual_settings_def float_eval)
  have f: "length (filter is_restore session) = 0"
    by (simp add: session_def)
  show ?thesis using a f c d e 1 2 3 4 5 by blast
qed

end
